theory Spec2Isabelle
  imports Complex_Main "HOL-Library.AList" "HOL-Library.Multiset"
    "HOL-Library.List_Lexorder" "HOL-Library.Char_ord" "HOL-Library.Monad_Syntax"
begin

section \<open>Values\<close>

text \<open>
  JavaScript numbers are modelled as exact reals with one extra value for \<open>NaN\<close>
  (what \<open>parseFloat\<close> returns on text with no numeric prefix). Rounding and
  the infinities of IEEE doubles are outside the model.
\<close>

datatype jsnum = Num real | NaN

fun js_abs :: "jsnum \<Rightarrow> jsnum" where
  "js_abs (Num x) = Num \<bar>x\<bar>"
| "js_abs NaN = NaN"

fun js_gt0 :: "jsnum \<Rightarrow> bool" where
  "js_gt0 (Num x) = (0 < x)"
| "js_gt0 NaN = False"

text \<open>What \<open>parseInt\<close> returns: an integer or \<open>NaN\<close>.\<close>

datatype jsint = IntVal int | IntNaN

text \<open>JSON documents: request bodies and response bodies. An object is an
  association list of its keys.\<close>

datatype json =
    JNull
  | JBool bool
  | JNum real
  | JStr string
  | JArr "json list"
  | JObj "(string \<times> json) list"

type_synonym obj = "(string \<times> json) list"

section \<open>Data model (shared/schema.ts)\<close>

text \<open>The rows of the five tables. Text columns are strings, \<open>real\<close> columns are
  reals; a nullable column is an option.\<close>

record user =
  u_id :: string
  u_email :: string
  u_password :: string
  u_firstName :: string
  u_lastName :: string
  u_createdAt :: string

record transaction =
  t_id :: string
  t_userId :: string
  t_description :: string
  t_amount :: real
  t_category :: string
  t_type :: string
  t_date :: string
  t_createdAt :: string

record investment =
  i_id :: string
  i_userId :: string
  i_symbol :: string
  i_name :: string
  i_type :: string
  i_shares :: real
  i_purchasePrice :: real
  i_currentPrice :: real
  i_purchaseDate :: string
  i_createdAt :: string

record goal =
  g_id :: string
  g_userId :: string
  g_title :: string
  g_description :: "string option"
  g_targetAmount :: real
  g_currentAmount :: "real option"
  g_targetDate :: string
  g_category :: string
  g_createdAt :: string

record savings_tip =
  tip_id :: string
  tip_userId :: string
  tip_category :: string
  tip_recommendation :: string
  tip_potentialSavings :: real
  tip_confidence :: real
  tip_isActive :: "bool option"
  tip_createdAt :: string

section \<open>Persistence layer (server/storage.ts)\<close>

text \<open>
  The five tables of the SQLite database, each a list of rows in insertion order.
  An insert throws when it violates a constraint of the \<open>CREATE TABLE\<close> statements:
  the \<open>UNIQUE\<close> email of a user; for a transaction, an investment, a goal and a
  savings tip the \<open>PRIMARY KEY\<close> (the identifier is already in the table) and the
  \<open>FOREIGN KEY\<close> (the owner is not the identifier of a user); and the \<open>NOT NULL\<close>
  amount of a transaction (SQLite binds a \<open>NaN\<close> as \<open>NULL\<close>). The identifiers come
  from \<open>randomUUID()\<close> and the timestamps from \<open>new Date()\<close>: both are arguments
  of the create operations. Two things are left out of the model: a collision of
  the identifier of a new user, and the foreign key check on an update that changes the
  owner.
\<close>

record store =
  tbl_users :: "user list"
  tbl_transactions :: "transaction list"
  tbl_investments :: "investment list"
  tbl_goals :: "goal list"
  tbl_savingsTips :: "savings_tip list"

datatype error = SqliteConstraint

text \<open>The types inferred from the insert schemas (the table's columns without
  \<open>id\<close> and \<open>createdAt\<close>). The goal's \<open>description\<close> and
  \<open>currentAmount\<close> are optional and nullable: \<open>None\<close> is an absent field,
  \<open>Some None\<close> is \<open>null\<close>. An absent \<open>currentAmount\<close> is stored as the
  column's default 0.\<close>

record insert_user =
  iu_email :: string
  iu_password :: string
  iu_firstName :: string
  iu_lastName :: string

record insert_transaction =
  it_userId :: string
  it_description :: string
  it_amount :: jsnum
  it_category :: string
  it_type :: string
  it_date :: string

record insert_investment =
  ii_userId :: string
  ii_symbol :: string
  ii_name :: string
  ii_type :: string
  ii_shares :: real
  ii_purchasePrice :: real
  ii_currentPrice :: real
  ii_purchaseDate :: string

record insert_goal =
  ig_userId :: string
  ig_title :: string
  ig_description :: "string option option"
  ig_targetAmount :: real
  ig_currentAmount :: "real option option"
  ig_targetDate :: string
  ig_category :: string

text \<open>\<open>Partial<InsertTransaction>\<close> and its siblings: every field may be absent
  (\<open>None\<close>). The owner field \<open>userId\<close> is one of the fields. An update
  sets the fields that are present; what the driver does with a patch that has no field
  at all is not modelled (such a patch changes nothing here).\<close>

record transaction_patch =
  tp_userId :: "string option"
  tp_description :: "string option"
  tp_amount :: "real option"
  tp_category :: "string option"
  tp_type :: "string option"
  tp_date :: "string option"

record investment_patch =
  ip_userId :: "string option"
  ip_symbol :: "string option"
  ip_name :: "string option"
  ip_type :: "string option"
  ip_shares :: "real option"
  ip_purchasePrice :: "real option"
  ip_currentPrice :: "real option"
  ip_purchaseDate :: "string option"

record goal_patch =
  gp_userId :: "string option"
  gp_title :: "string option"
  gp_description :: "string option option"
  gp_targetAmount :: "real option"
  gp_currentAmount :: "real option option"
  gp_targetDate :: "string option"
  gp_category :: "string option"

text \<open>\<open>ORDER BY key DESC\<close>. SQL leaves the order of rows with equal keys open; the
  model fixes one. Text columns compare as byte strings, lexicographically.\<close>

definition orderByDesc :: "('a \<Rightarrow> 'k::linorder) \<Rightarrow> 'a list \<Rightarrow> 'a list" where
  "orderByDesc key rows = rev (sort_key key rows)"

fun or_else :: "'a option \<Rightarrow> 'a \<Rightarrow> 'a" where
  "or_else None d = d"
| "or_else (Some v) d = v"

subsection \<open>Users\<close>

definition getUser :: "string \<Rightarrow> store \<Rightarrow> user option" where
  "getUser ident s = find (\<lambda>u. u_id u = ident) (tbl_users s)"

definition getUserByEmail :: "string \<Rightarrow> store \<Rightarrow> user option" where
  "getUserByEmail email s = find (\<lambda>u. u_email u = email) (tbl_users s)"

definition createUser :: "string \<Rightarrow> string \<Rightarrow> insert_user \<Rightarrow> store \<Rightarrow> error + (user \<times> store)" where
  "createUser uuid now insertUser s =
     (let user = \<lparr>u_id = uuid, u_email = iu_email insertUser,
                   u_password = iu_password insertUser,
                   u_firstName = iu_firstName insertUser,
                   u_lastName = iu_lastName insertUser, u_createdAt = now\<rparr>
      in if iu_email insertUser \<in> set (map u_email (tbl_users s)) then Inl SqliteConstraint
         else Inr (user, s\<lparr>tbl_users := tbl_users s @ [user]\<rparr>))"

subsection \<open>Transactions\<close>

text \<open>\<open>.limit(limit)\<close> with the number that the route got from \<open>parseInt\<close>.
  The query has a \<open>LIMIT\<close> clause only for a limit that is at least 0 (and SQLite
  reads a negative \<open>LIMIT\<close> as no bound): a negative limit and \<open>NaN\<close> return all
  rows. The default of the parameter, 50, applies when no limit is passed.\<close>

definition sql_limit :: "jsint \<Rightarrow> 'a list \<Rightarrow> 'a list" where
  "sql_limit limit rows =
     (case limit of
        IntVal n \<Rightarrow> if 0 \<le> n then take (nat n) rows else rows
      | IntNaN \<Rightarrow> rows)"

definition getUserTransactions :: "string \<Rightarrow> jsint option \<Rightarrow> store \<Rightarrow> transaction list" where
  "getUserTransactions userId limit s =
     sql_limit (or_else limit (IntVal 50))
       (orderByDesc t_date (filter (\<lambda>t. t_userId t = userId) (tbl_transactions s)))"

definition getTransaction :: "string \<Rightarrow> string \<Rightarrow> store \<Rightarrow> transaction option" where
  "getTransaction ident userId s =
     find (\<lambda>t. t_id t = ident \<and> t_userId t = userId) (tbl_transactions s)"

definition createTransaction ::
  "string \<Rightarrow> string \<Rightarrow> insert_transaction \<Rightarrow> store \<Rightarrow> error + (transaction \<times> store)" where
  "createTransaction uuid now insertTransaction s =
     (case it_amount insertTransaction of
        NaN \<Rightarrow> Inl SqliteConstraint
      | Num a \<Rightarrow>
          if it_userId insertTransaction \<notin> set (map u_id (tbl_users s))
             \<or> uuid \<in> set (map t_id (tbl_transactions s))
          then Inl SqliteConstraint
          else
          (let transaction =
                 \<lparr>t_id = uuid, t_userId = it_userId insertTransaction,
                  t_description = it_description insertTransaction, t_amount = a,
                  t_category = it_category insertTransaction,
                  t_type = it_type insertTransaction, t_date = it_date insertTransaction,
                  t_createdAt = now\<rparr>
           in Inr (transaction, s\<lparr>tbl_transactions := tbl_transactions s @ [transaction]\<rparr>)))"

definition set_transaction :: "transaction_patch \<Rightarrow> transaction \<Rightarrow> transaction" where
  "set_transaction updates t =
     t\<lparr>t_userId := or_else (tp_userId updates) (t_userId t),
       t_description := or_else (tp_description updates) (t_description t),
       t_amount := or_else (tp_amount updates) (t_amount t),
       t_category := or_else (tp_category updates) (t_category t),
       t_type := or_else (tp_type updates) (t_type t),
       t_date := or_else (tp_date updates) (t_date t)\<rparr>"

definition updateTransaction ::
  "string \<Rightarrow> string \<Rightarrow> transaction_patch \<Rightarrow> store \<Rightarrow> transaction option \<times> store" where
  "updateTransaction ident userId updates s =
     (let s' = s\<lparr>tbl_transactions :=
                  map (\<lambda>t. if t_id t = ident \<and> t_userId t = userId
                           then set_transaction updates t else t)
                    (tbl_transactions s)\<rparr>
      in (getTransaction ident userId s', s'))"

definition deleteTransaction :: "string \<Rightarrow> string \<Rightarrow> store \<Rightarrow> bool \<times> store" where
  "deleteTransaction ident userId s =
     (let changes = length (filter (\<lambda>t. t_id t = ident \<and> t_userId t = userId)
                              (tbl_transactions s));
          s' = s\<lparr>tbl_transactions :=
                  filter (\<lambda>t. \<not> (t_id t = ident \<and> t_userId t = userId))
                    (tbl_transactions s)\<rparr>
      in (changes > 0, s'))"

subsection \<open>Investments\<close>

definition getUserInvestments :: "string \<Rightarrow> store \<Rightarrow> investment list" where
  "getUserInvestments userId s =
     orderByDesc i_createdAt (filter (\<lambda>i. i_userId i = userId) (tbl_investments s))"

definition getInvestment :: "string \<Rightarrow> string \<Rightarrow> store \<Rightarrow> investment option" where
  "getInvestment ident userId s =
     find (\<lambda>i. i_id i = ident \<and> i_userId i = userId) (tbl_investments s)"

definition createInvestment ::
  "string \<Rightarrow> string \<Rightarrow> insert_investment \<Rightarrow> store \<Rightarrow> error + (investment \<times> store)" where
  "createInvestment uuid now insertInvestment s =
     (let investment =
            \<lparr>i_id = uuid, i_userId = ii_userId insertInvestment,
             i_symbol = ii_symbol insertInvestment, i_name = ii_name insertInvestment,
             i_type = ii_type insertInvestment, i_shares = ii_shares insertInvestment,
             i_purchasePrice = ii_purchasePrice insertInvestment,
             i_currentPrice = ii_currentPrice insertInvestment,
             i_purchaseDate = ii_purchaseDate insertInvestment, i_createdAt = now\<rparr>
      in if ii_userId insertInvestment \<notin> set (map u_id (tbl_users s))
            \<or> uuid \<in> set (map i_id (tbl_investments s))
         then Inl SqliteConstraint
         else Inr (investment, s\<lparr>tbl_investments := tbl_investments s @ [investment]\<rparr>))"

definition set_investment :: "investment_patch \<Rightarrow> investment \<Rightarrow> investment" where
  "set_investment updates i =
     i\<lparr>i_userId := or_else (ip_userId updates) (i_userId i),
       i_symbol := or_else (ip_symbol updates) (i_symbol i),
       i_name := or_else (ip_name updates) (i_name i),
       i_type := or_else (ip_type updates) (i_type i),
       i_shares := or_else (ip_shares updates) (i_shares i),
       i_purchasePrice := or_else (ip_purchasePrice updates) (i_purchasePrice i),
       i_currentPrice := or_else (ip_currentPrice updates) (i_currentPrice i),
       i_purchaseDate := or_else (ip_purchaseDate updates) (i_purchaseDate i)\<rparr>"

definition updateInvestment ::
  "string \<Rightarrow> string \<Rightarrow> investment_patch \<Rightarrow> store \<Rightarrow> investment option \<times> store" where
  "updateInvestment ident userId updates s =
     (let s' = s\<lparr>tbl_investments :=
                  map (\<lambda>i. if i_id i = ident \<and> i_userId i = userId
                           then set_investment updates i else i)
                    (tbl_investments s)\<rparr>
      in (getInvestment ident userId s', s'))"

definition deleteInvestment :: "string \<Rightarrow> string \<Rightarrow> store \<Rightarrow> bool \<times> store" where
  "deleteInvestment ident userId s =
     (let changes = length (filter (\<lambda>i. i_id i = ident \<and> i_userId i = userId)
                              (tbl_investments s));
          s' = s\<lparr>tbl_investments :=
                  filter (\<lambda>i. \<not> (i_id i = ident \<and> i_userId i = userId))
                    (tbl_investments s)\<rparr>
      in (changes > 0, s'))"

subsection \<open>Goals\<close>

definition getUserGoals :: "string \<Rightarrow> store \<Rightarrow> goal list" where
  "getUserGoals userId s =
     orderByDesc g_createdAt (filter (\<lambda>g. g_userId g = userId) (tbl_goals s))"

definition getGoal :: "string \<Rightarrow> string \<Rightarrow> store \<Rightarrow> goal option" where
  "getGoal ident userId s =
     find (\<lambda>g. g_id g = ident \<and> g_userId g = userId) (tbl_goals s)"

definition createGoal ::
  "string \<Rightarrow> string \<Rightarrow> insert_goal \<Rightarrow> store \<Rightarrow> error + (goal \<times> store)" where
  "createGoal uuid now insertGoal s =
     (let goal =
            \<lparr>g_id = uuid, g_userId = ig_userId insertGoal, g_title = ig_title insertGoal,
             g_description = or_else (ig_description insertGoal) None,
             g_targetAmount = ig_targetAmount insertGoal,
             g_currentAmount = or_else (ig_currentAmount insertGoal) (Some 0),
             g_targetDate = ig_targetDate insertGoal,
             g_category = ig_category insertGoal, g_createdAt = now\<rparr>
      in if ig_userId insertGoal \<notin> set (map u_id (tbl_users s))
            \<or> uuid \<in> set (map g_id (tbl_goals s))
         then Inl SqliteConstraint
         else Inr (goal, s\<lparr>tbl_goals := tbl_goals s @ [goal]\<rparr>))"

definition set_goal :: "goal_patch \<Rightarrow> goal \<Rightarrow> goal" where
  "set_goal updates g =
     g\<lparr>g_userId := or_else (gp_userId updates) (g_userId g),
       g_title := or_else (gp_title updates) (g_title g),
       g_description := or_else (gp_description updates) (g_description g),
       g_targetAmount := or_else (gp_targetAmount updates) (g_targetAmount g),
       g_currentAmount := or_else (gp_currentAmount updates) (g_currentAmount g),
       g_targetDate := or_else (gp_targetDate updates) (g_targetDate g),
       g_category := or_else (gp_category updates) (g_category g)\<rparr>"

definition updateGoal ::
  "string \<Rightarrow> string \<Rightarrow> goal_patch \<Rightarrow> store \<Rightarrow> goal option \<times> store" where
  "updateGoal ident userId updates s =
     (let s' = s\<lparr>tbl_goals :=
                  map (\<lambda>g. if g_id g = ident \<and> g_userId g = userId
                           then set_goal updates g else g)
                    (tbl_goals s)\<rparr>
      in (getGoal ident userId s', s'))"

definition deleteGoal :: "string \<Rightarrow> string \<Rightarrow> store \<Rightarrow> bool \<times> store" where
  "deleteGoal ident userId s =
     (let changes = length (filter (\<lambda>g. g_id g = ident \<and> g_userId g = userId)
                              (tbl_goals s));
          s' = s\<lparr>tbl_goals :=
                  filter (\<lambda>g. \<not> (g_id g = ident \<and> g_userId g = userId)) (tbl_goals s)\<rparr>
      in (changes > 0, s'))"

subsection \<open>Savings tips\<close>

definition getUserSavingsTips :: "string \<Rightarrow> store \<Rightarrow> savings_tip list" where
  "getUserSavingsTips userId s =
     orderByDesc tip_confidence
       (filter (\<lambda>t. tip_userId t = userId \<and> tip_isActive t = Some True) (tbl_savingsTips s))"

definition createSavingsTip ::
  "string \<Rightarrow> string \<Rightarrow> savings_tip \<Rightarrow> store \<Rightarrow> error + (savings_tip \<times> store)" where
  "createSavingsTip uuid now tip s =
     (let savingsTip = tip\<lparr>tip_id := uuid, tip_createdAt := now\<rparr>
      in if tip_userId tip \<notin> set (map u_id (tbl_users s))
            \<or> uuid \<in> set (map tip_id (tbl_savingsTips s))
         then Inl SqliteConstraint
         else Inr (savingsTip, s\<lparr>tbl_savingsTips := tbl_savingsTips s @ [savingsTip]\<rparr>))"

section \<open>Request handlers (server/routes.ts)\<close>

datatype response = Response nat json

definition message :: "string \<Rightarrow> json" where
  "message m = JObj [(''message'', JStr m)]"

text \<open>
  Modelled from the spec: \<open>authenticateToken\<close> of server/auth.ts, which is not among
  the sources. It extracts the bearer token and calls \<open>validateToken\<close>; on failure it
  short-circuits with an Unauthenticated (401) response before any handler logic runs;
  on success the handler runs with the caller's identifier as \<open>req.userId\<close>.
  \<open>validateToken\<close>, \<open>hashPassword\<close>, \<open>verifyPassword\<close> and \<open>generateToken\<close>
  of the same file are arguments of the handlers that use them.
\<close>

definition authenticateToken ::
  "(string \<Rightarrow> string option) \<Rightarrow> string option \<Rightarrow> (string \<Rightarrow> store \<Rightarrow> response \<times> store)
     \<Rightarrow> store \<Rightarrow> response \<times> store" where
  "authenticateToken validateToken bearer handler s =
     (case bearer of
        None \<Rightarrow> (Response 401 (message ''Unauthenticated''), s)
      | Some token \<Rightarrow>
          (case validateToken token of
             None \<Rightarrow> (Response 401 (message ''Unauthenticated''), s)
           | Some userId \<Rightarrow> handler userId s))"

subsection \<open>Schemas (zod)\<close>

text \<open>\<open>schema.parse\<close> returns the typed value or throws (\<open>None\<close>). Keys that the
  schema does not name are dropped. A required field must be present with its type; a
  field of a \<open>partial()\<close> schema may be absent.\<close>

definition get_str :: "obj \<Rightarrow> string \<Rightarrow> string option" where
  "get_str ob k = (case map_of ob k of Some (JStr v) \<Rightarrow> Some v | _ \<Rightarrow> None)"

definition get_num :: "obj \<Rightarrow> string \<Rightarrow> real option" where
  "get_num ob k = (case map_of ob k of Some (JNum v) \<Rightarrow> Some v | _ \<Rightarrow> None)"

definition opt_str :: "obj \<Rightarrow> string \<Rightarrow> string option option" where
  "opt_str ob k =
     (case map_of ob k of None \<Rightarrow> Some None | Some (JStr v) \<Rightarrow> Some (Some v) | _ \<Rightarrow> None)"

definition opt_num :: "obj \<Rightarrow> string \<Rightarrow> real option option" where
  "opt_num ob k =
     (case map_of ob k of None \<Rightarrow> Some None | Some (JNum v) \<Rightarrow> Some (Some v) | _ \<Rightarrow> None)"

definition optnull_str :: "obj \<Rightarrow> string \<Rightarrow> string option option option" where
  "optnull_str ob k =
     (case map_of ob k of
        None \<Rightarrow> Some None
      | Some JNull \<Rightarrow> Some (Some None)
      | Some (JStr v) \<Rightarrow> Some (Some (Some v))
      | _ \<Rightarrow> None)"

definition optnull_num :: "obj \<Rightarrow> string \<Rightarrow> real option option option" where
  "optnull_num ob k =
     (case map_of ob k of
        None \<Rightarrow> Some None
      | Some JNull \<Rightarrow> Some (Some None)
      | Some (JNum v) \<Rightarrow> Some (Some (Some v))
      | _ \<Rightarrow> None)"

definition insertUserSchema_parse :: "obj \<Rightarrow> insert_user option" where
  "insertUserSchema_parse ob = do {
     email \<leftarrow> get_str ob ''email'';
     password \<leftarrow> get_str ob ''password'';
     firstName \<leftarrow> get_str ob ''firstName'';
     lastName \<leftarrow> get_str ob ''lastName'';
     Some \<lparr>iu_email = email, iu_password = password, iu_firstName = firstName,
           iu_lastName = lastName\<rparr> }"

text \<open>\<open>loginSchema\<close>: an email address (zod's test is the argument \<open>isEmail\<close>)
  and a password of at least 6 characters.\<close>

definition loginSchema_parse :: "(string \<Rightarrow> bool) \<Rightarrow> obj \<Rightarrow> (string \<times> string) option" where
  "loginSchema_parse isEmail ob = do {
     email \<leftarrow> get_str ob ''email'';
     password \<leftarrow> get_str ob ''password'';
     if isEmail email \<and> 6 \<le> length password then Some (email, password) else None }"

definition insertTransactionSchema_parse :: "obj \<Rightarrow> insert_transaction option" where
  "insertTransactionSchema_parse ob = do {
     userId \<leftarrow> get_str ob ''userId'';
     description \<leftarrow> get_str ob ''description'';
     amount \<leftarrow> get_num ob ''amount'';
     category \<leftarrow> get_str ob ''category'';
     type \<leftarrow> get_str ob ''type'';
     date \<leftarrow> get_str ob ''date'';
     Some \<lparr>it_userId = userId, it_description = description, it_amount = Num amount,
           it_category = category, it_type = type, it_date = date\<rparr> }"

definition insertTransactionSchema_partial_parse :: "obj \<Rightarrow> transaction_patch option" where
  "insertTransactionSchema_partial_parse ob = do {
     userId \<leftarrow> opt_str ob ''userId'';
     description \<leftarrow> opt_str ob ''description'';
     amount \<leftarrow> opt_num ob ''amount'';
     category \<leftarrow> opt_str ob ''category'';
     type \<leftarrow> opt_str ob ''type'';
     date \<leftarrow> opt_str ob ''date'';
     Some \<lparr>tp_userId = userId, tp_description = description, tp_amount = amount,
           tp_category = category, tp_type = type, tp_date = date\<rparr> }"

definition insertInvestmentSchema_parse :: "obj \<Rightarrow> insert_investment option" where
  "insertInvestmentSchema_parse ob = do {
     userId \<leftarrow> get_str ob ''userId'';
     symbol \<leftarrow> get_str ob ''symbol'';
     name \<leftarrow> get_str ob ''name'';
     type \<leftarrow> get_str ob ''type'';
     shares \<leftarrow> get_num ob ''shares'';
     purchasePrice \<leftarrow> get_num ob ''purchasePrice'';
     currentPrice \<leftarrow> get_num ob ''currentPrice'';
     purchaseDate \<leftarrow> get_str ob ''purchaseDate'';
     Some \<lparr>ii_userId = userId, ii_symbol = symbol, ii_name = name, ii_type = type,
           ii_shares = shares, ii_purchasePrice = purchasePrice,
           ii_currentPrice = currentPrice, ii_purchaseDate = purchaseDate\<rparr> }"

definition insertInvestmentSchema_partial_parse :: "obj \<Rightarrow> investment_patch option" where
  "insertInvestmentSchema_partial_parse ob = do {
     userId \<leftarrow> opt_str ob ''userId'';
     symbol \<leftarrow> opt_str ob ''symbol'';
     name \<leftarrow> opt_str ob ''name'';
     type \<leftarrow> opt_str ob ''type'';
     shares \<leftarrow> opt_num ob ''shares'';
     purchasePrice \<leftarrow> opt_num ob ''purchasePrice'';
     currentPrice \<leftarrow> opt_num ob ''currentPrice'';
     purchaseDate \<leftarrow> opt_str ob ''purchaseDate'';
     Some \<lparr>ip_userId = userId, ip_symbol = symbol, ip_name = name, ip_type = type,
           ip_shares = shares, ip_purchasePrice = purchasePrice,
           ip_currentPrice = currentPrice, ip_purchaseDate = purchaseDate\<rparr> }"

definition insertGoalSchema_parse :: "obj \<Rightarrow> insert_goal option" where
  "insertGoalSchema_parse ob = do {
     userId \<leftarrow> get_str ob ''userId'';
     title \<leftarrow> get_str ob ''title'';
     description \<leftarrow> optnull_str ob ''description'';
     targetAmount \<leftarrow> get_num ob ''targetAmount'';
     currentAmount \<leftarrow> optnull_num ob ''currentAmount'';
     targetDate \<leftarrow> get_str ob ''targetDate'';
     category \<leftarrow> get_str ob ''category'';
     Some \<lparr>ig_userId = userId, ig_title = title,
           ig_description = description,
           ig_targetAmount = targetAmount, ig_currentAmount = currentAmount,
           ig_targetDate = targetDate, ig_category = category\<rparr> }"

definition insertGoalSchema_partial_parse :: "obj \<Rightarrow> goal_patch option" where
  "insertGoalSchema_partial_parse ob = do {
     userId \<leftarrow> opt_str ob ''userId'';
     title \<leftarrow> opt_str ob ''title'';
     description \<leftarrow> optnull_str ob ''description'';
     targetAmount \<leftarrow> opt_num ob ''targetAmount'';
     currentAmount \<leftarrow> optnull_num ob ''currentAmount'';
     targetDate \<leftarrow> opt_str ob ''targetDate'';
     category \<leftarrow> opt_str ob ''category'';
     Some \<lparr>gp_userId = userId, gp_title = title, gp_description = description,
           gp_targetAmount = targetAmount, gp_currentAmount = currentAmount,
           gp_targetDate = targetDate, gp_category = category\<rparr> }"

subsection \<open>Rows as JSON\<close>

definition user_obj :: "user \<Rightarrow> obj" where
  "user_obj u =
     [(''id'', JStr (u_id u)), (''email'', JStr (u_email u)),
      (''password'', JStr (u_password u)), (''firstName'', JStr (u_firstName u)),
      (''lastName'', JStr (u_lastName u)), (''createdAt'', JStr (u_createdAt u))]"

text \<open>\<open>const { password, ...userWithoutPassword } = user\<close>: the object without its
  key \<open>password\<close>.\<close>

definition userWithoutPassword :: "user \<Rightarrow> obj" where
  "userWithoutPassword u = AList.delete ''password'' (user_obj u)"

definition transaction_json :: "transaction \<Rightarrow> json" where
  "transaction_json t =
     JObj [(''id'', JStr (t_id t)), (''userId'', JStr (t_userId t)),
           (''description'', JStr (t_description t)), (''amount'', JNum (t_amount t)),
           (''category'', JStr (t_category t)), (''type'', JStr (t_type t)),
           (''date'', JStr (t_date t)), (''createdAt'', JStr (t_createdAt t))]"

definition investment_json :: "investment \<Rightarrow> json" where
  "investment_json i =
     JObj [(''id'', JStr (i_id i)), (''userId'', JStr (i_userId i)),
           (''symbol'', JStr (i_symbol i)), (''name'', JStr (i_name i)),
           (''type'', JStr (i_type i)), (''shares'', JNum (i_shares i)),
           (''purchasePrice'', JNum (i_purchasePrice i)),
           (''currentPrice'', JNum (i_currentPrice i)),
           (''purchaseDate'', JStr (i_purchaseDate i)),
           (''createdAt'', JStr (i_createdAt i))]"

definition goal_json :: "goal \<Rightarrow> json" where
  "goal_json g =
     JObj [(''id'', JStr (g_id g)), (''userId'', JStr (g_userId g)),
           (''title'', JStr (g_title g)),
           (''description'', (case g_description g of None \<Rightarrow> JNull | Some d \<Rightarrow> JStr d)),
           (''targetAmount'', JNum (g_targetAmount g)),
           (''currentAmount'', (case g_currentAmount g of None \<Rightarrow> JNull | Some a \<Rightarrow> JNum a)),
           (''targetDate'', JStr (g_targetDate g)), (''category'', JStr (g_category g)),
           (''createdAt'', JStr (g_createdAt g))]"

text \<open>\<open>createGoal\<close> returns the object it inserted, \<open>{...insertGoal, id,
  createdAt}\<close>, which has the optional fields only when the request had them.\<close>

definition created_goal_json :: "string \<Rightarrow> string \<Rightarrow> insert_goal \<Rightarrow> json" where
  "created_goal_json uuid now insertGoal =
     JObj ([(''userId'', JStr (ig_userId insertGoal)), (''title'', JStr (ig_title insertGoal))]
           @ (case ig_description insertGoal of
                None \<Rightarrow> []
              | Some None \<Rightarrow> [(''description'', JNull)]
              | Some (Some d) \<Rightarrow> [(''description'', JStr d)])
           @ [(''targetAmount'', JNum (ig_targetAmount insertGoal))]
           @ (case ig_currentAmount insertGoal of
                None \<Rightarrow> []
              | Some None \<Rightarrow> [(''currentAmount'', JNull)]
              | Some (Some a) \<Rightarrow> [(''currentAmount'', JNum a)])
           @ [(''targetDate'', JStr (ig_targetDate insertGoal)),
              (''category'', JStr (ig_category insertGoal)),
              (''id'', JStr uuid), (''createdAt'', JStr now)])"

definition savings_tip_json :: "savings_tip \<Rightarrow> json" where
  "savings_tip_json t =
     JObj [(''id'', JStr (tip_id t)), (''userId'', JStr (tip_userId t)),
           (''category'', JStr (tip_category t)),
           (''recommendation'', JStr (tip_recommendation t)),
           (''potentialSavings'', JNum (tip_potentialSavings t)),
           (''confidence'', JNum (tip_confidence t)),
           (''isActive'', (case tip_isActive t of None \<Rightarrow> JNull | Some b \<Rightarrow> JBool b)),
           (''createdAt'', JStr (tip_createdAt t))]"

subsection \<open>Authentication routes\<close>

text \<open>Every handler body is a \<open>try\<close> block; an exception of the schema or of the
  storage is caught and turned into the handler's error response. The handlers take
  what the platform supplies (\<open>randomUUID()\<close>, the current time) as arguments.\<close>

definition register ::
  "(string \<Rightarrow> string) \<Rightarrow> (string \<Rightarrow> string) \<Rightarrow> string \<Rightarrow> string \<Rightarrow> obj \<Rightarrow> store
     \<Rightarrow> response \<times> store" where
  "register hashPassword generateToken uuid now body s =
     (case insertUserSchema_parse body of
        None \<Rightarrow> (Response 400 (message ''Invalid request data''), s)
      | Some userData \<Rightarrow>
          (case getUserByEmail (iu_email userData) s of
             Some existingUser \<Rightarrow> (Response 400 (message ''User already exists''), s)
           | None \<Rightarrow>
               (let hashedPassword = hashPassword (iu_password userData) in
                case createUser uuid now (userData\<lparr>iu_password := hashedPassword\<rparr>) s of
                  Inl e \<Rightarrow> (Response 400 (message ''Invalid request data''), s)
                | Inr (user, s') \<Rightarrow>
                    (let token = generateToken (u_id user) in
                     (Response 200
                        (JObj [(''user'', JObj (userWithoutPassword user)),
                               (''token'', JStr token)]), s')))))"

definition login ::
  "(string \<Rightarrow> bool) \<Rightarrow> (string \<Rightarrow> string \<Rightarrow> bool) \<Rightarrow> (string \<Rightarrow> string) \<Rightarrow> obj \<Rightarrow> store
     \<Rightarrow> response \<times> store" where
  "login isEmail verifyPassword generateToken body s =
     (case loginSchema_parse isEmail body of
        None \<Rightarrow> (Response 400 (message ''Invalid request data''), s)
      | Some (email, password) \<Rightarrow>
          (case getUserByEmail email s of
             None \<Rightarrow> (Response 401 (message ''Invalid credentials''), s)
           | Some user \<Rightarrow>
               if \<not> verifyPassword password (u_password user)
               then (Response 401 (message ''Invalid credentials''), s)
               else (let token = generateToken (u_id user) in
                     (Response 200
                        (JObj [(''user'', JObj (userWithoutPassword user)),
                               (''token'', JStr token)]), s))))"

definition me_handler :: "string \<Rightarrow> store \<Rightarrow> response \<times> store" where
  "me_handler userId s =
     (case getUser userId s of
        None \<Rightarrow> (Response 404 (message ''User not found''), s)
      | Some user \<Rightarrow> (Response 200 (JObj [(''user'', JObj (userWithoutPassword user))]), s))"

definition me :: "(string \<Rightarrow> string option) \<Rightarrow> string option \<Rightarrow> store \<Rightarrow> response \<times> store" where
  "me validateToken bearer s = authenticateToken validateToken bearer me_handler s"

subsection \<open>Transaction routes\<close>

text \<open>\<open>GET /api/transactions\<close>: the query's \<open>limit\<close>, when it is a non-empty
  string, goes through \<open>parseInt\<close> (an argument) and on to the storage as it is;
  otherwise the storage's default applies.\<close>

definition get_transactions_handler ::
  "(string \<Rightarrow> jsint) \<Rightarrow> string option \<Rightarrow> string \<Rightarrow> store \<Rightarrow> response \<times> store" where
  "get_transactions_handler parseInt query_limit userId s =
     (let limit = (case query_limit of
                     None \<Rightarrow> None
                   | Some q \<Rightarrow> if q = [] then None else Some (parseInt q))
      in (Response 200 (JArr (map transaction_json (getUserTransactions userId limit s))), s))"

definition post_transactions_handler ::
  "string \<Rightarrow> string \<Rightarrow> obj \<Rightarrow> string \<Rightarrow> store \<Rightarrow> response \<times> store" where
  "post_transactions_handler uuid now body userId s =
     (case insertTransactionSchema_parse (AList.update ''userId'' (JStr userId) body) of
        None \<Rightarrow> (Response 400 (message ''Invalid transaction data''), s)
      | Some transactionData \<Rightarrow>
          (case createTransaction uuid now transactionData s of
             Inl e \<Rightarrow> (Response 400 (message ''Invalid transaction data''), s)
           | Inr (transaction, s') \<Rightarrow> (Response 200 (transaction_json transaction), s')))"

definition put_transactions_handler ::
  "string \<Rightarrow> obj \<Rightarrow> string \<Rightarrow> store \<Rightarrow> response \<times> store" where
  "put_transactions_handler ident body userId s =
     (case insertTransactionSchema_partial_parse body of
        None \<Rightarrow> (Response 400 (message ''Invalid update data''), s)
      | Some updates \<Rightarrow>
          (case updateTransaction ident userId updates s of
             (None, s') \<Rightarrow> (Response 404 (message ''Transaction not found''), s')
           | (Some transaction, s') \<Rightarrow> (Response 200 (transaction_json transaction), s')))"

definition delete_transactions_handler :: "string \<Rightarrow> string \<Rightarrow> store \<Rightarrow> response \<times> store" where
  "delete_transactions_handler ident userId s =
     (case deleteTransaction ident userId s of
        (success, s') \<Rightarrow>
          if \<not> success then (Response 404 (message ''Transaction not found''), s')
          else (Response 200 (JObj [(''success'', JBool True)]), s'))"

subsection \<open>Investment routes\<close>

definition get_investments_handler :: "string \<Rightarrow> store \<Rightarrow> response \<times> store" where
  "get_investments_handler userId s =
     (Response 200 (JArr (map investment_json (getUserInvestments userId s))), s)"

definition post_investments_handler ::
  "string \<Rightarrow> string \<Rightarrow> obj \<Rightarrow> string \<Rightarrow> store \<Rightarrow> response \<times> store" where
  "post_investments_handler uuid now body userId s =
     (case insertInvestmentSchema_parse (AList.update ''userId'' (JStr userId) body) of
        None \<Rightarrow> (Response 400 (message ''Invalid investment data''), s)
      | Some investmentData \<Rightarrow>
          (case createInvestment uuid now investmentData s of
             Inl e \<Rightarrow> (Response 400 (message ''Invalid investment data''), s)
           | Inr (investment, s') \<Rightarrow> (Response 200 (investment_json investment), s')))"

definition put_investments_handler ::
  "string \<Rightarrow> obj \<Rightarrow> string \<Rightarrow> store \<Rightarrow> response \<times> store" where
  "put_investments_handler ident body userId s =
     (case insertInvestmentSchema_partial_parse body of
        None \<Rightarrow> (Response 400 (message ''Invalid update data''), s)
      | Some updates \<Rightarrow>
          (case updateInvestment ident userId updates s of
             (None, s') \<Rightarrow> (Response 404 (message ''Investment not found''), s')
           | (Some investment, s') \<Rightarrow> (Response 200 (investment_json investment), s')))"

definition delete_investments_handler :: "string \<Rightarrow> string \<Rightarrow> store \<Rightarrow> response \<times> store" where
  "delete_investments_handler ident userId s =
     (case deleteInvestment ident userId s of
        (success, s') \<Rightarrow>
          if \<not> success then (Response 404 (message ''Investment not found''), s')
          else (Response 200 (JObj [(''success'', JBool True)]), s'))"

subsection \<open>Goal routes\<close>

definition get_goals_handler :: "string \<Rightarrow> store \<Rightarrow> response \<times> store" where
  "get_goals_handler userId s =
     (Response 200 (JArr (map goal_json (getUserGoals userId s))), s)"

definition post_goals_handler ::
  "string \<Rightarrow> string \<Rightarrow> obj \<Rightarrow> string \<Rightarrow> store \<Rightarrow> response \<times> store" where
  "post_goals_handler uuid now body userId s =
     (case insertGoalSchema_parse (AList.update ''userId'' (JStr userId) body) of
        None \<Rightarrow> (Response 400 (message ''Invalid goal data''), s)
      | Some goalData \<Rightarrow>
          (case createGoal uuid now goalData s of
             Inl e \<Rightarrow> (Response 400 (message ''Invalid goal data''), s)
           | Inr (goal, s') \<Rightarrow> (Response 200 (created_goal_json uuid now goalData), s')))"

definition put_goals_handler :: "string \<Rightarrow> obj \<Rightarrow> string \<Rightarrow> store \<Rightarrow> response \<times> store" where
  "put_goals_handler ident body userId s =
     (case insertGoalSchema_partial_parse body of
        None \<Rightarrow> (Response 400 (message ''Invalid update data''), s)
      | Some updates \<Rightarrow>
          (case updateGoal ident userId updates s of
             (None, s') \<Rightarrow> (Response 404 (message ''Goal not found''), s')
           | (Some goal, s') \<Rightarrow> (Response 200 (goal_json goal), s')))"

definition delete_goals_handler :: "string \<Rightarrow> string \<Rightarrow> store \<Rightarrow> response \<times> store" where
  "delete_goals_handler ident userId s =
     (case deleteGoal ident userId s of
        (success, s') \<Rightarrow>
          if \<not> success then (Response 404 (message ''Goal not found''), s')
          else (Response 200 (JObj [(''success'', JBool True)]), s'))"

definition get_savings_tips_handler :: "string \<Rightarrow> store \<Rightarrow> response \<times> store" where
  "get_savings_tips_handler userId s =
     (Response 200 (JArr (map savings_tip_json (getUserSavingsTips userId s))), s)"

subsection \<open>CSV upload route\<close>

text \<open>
  A row of \<open>csv-parser\<close> is an object from column names to strings. The parser
  itself, \<open>parseFloat\<close> and the analytics process (its exit code and the parsed JSON
  object of its output, \<open>None\<close> when \<open>JSON.parse\<close> throws) are arguments. The two
  readings of the clock in one row handler are taken to be the same instant.
  \<open>toLowerCase\<close> is modelled on ASCII letters.
\<close>

type_synonym csv_row = "(string \<times> string) list"

fun first_truthy :: "csv_row \<Rightarrow> string list \<Rightarrow> string option" where
  "first_truthy row [] = None"
| "first_truthy row (k # ks) =
     (case map_of row k of
        None \<Rightarrow> first_truthy row ks
      | Some v \<Rightarrow> if v = [] then first_truthy row ks else Some v)"

fun truthy :: "json \<Rightarrow> bool" where
  "truthy JNull = False"
| "truthy (JBool b) = b"
| "truthy (JNum x) = (x \<noteq> 0)"
| "truthy (JStr v) = (v \<noteq> [])"
| "truthy (JArr xs) = True"
| "truthy (JObj ob) = True"

definition toLowerCase :: "string \<Rightarrow> string" where
  "toLowerCase str =
     map (\<lambda>c. let n = (of_char c :: nat) in if 65 \<le> n \<and> n \<le> 90 then char_of (n + 32) else c)
       str"

fun starts_with :: "string \<Rightarrow> string \<Rightarrow> bool" where
  "starts_with str [] = True"
| "starts_with [] (c # cs) = False"
| "starts_with (d # ds) (c # cs) = (d = c \<and> starts_with ds cs)"

fun includes_str :: "string \<Rightarrow> string \<Rightarrow> bool" where
  "includes_str [] sub = (sub = [])"
| "includes_str (d # ds) sub = (starts_with (d # ds) sub \<or> includes_str ds sub)"

definition row_description :: "csv_row \<Rightarrow> string" where
  "row_description row =
     or_else (first_truthy row [''description'', ''memo'', ''transaction'']) ''Unknown''"

definition parsed_amount :: "(string \<Rightarrow> jsnum) \<Rightarrow> csv_row \<Rightarrow> jsnum" where
  "parsed_amount parseFloat row =
     (case first_truthy row [''amount'', ''debit'', ''credit''] of
        None \<Rightarrow> Num 0
      | Some v \<Rightarrow> parseFloat v)"

definition row_amount :: "(string \<Rightarrow> jsnum) \<Rightarrow> csv_row \<Rightarrow> jsnum" where
  "row_amount parseFloat row = js_abs (parsed_amount parseFloat row)"

definition row_date :: "string \<Rightarrow> csv_row \<Rightarrow> string" where
  "row_date now row =
     or_else (first_truthy row [''date'', ''transaction_date'', ''posted_date''])
       (takeWhile (\<lambda>c. c \<noteq> CHR ''T'') now)"

definition row_type :: "jsnum \<Rightarrow> string" where
  "row_type amount = (if js_gt0 amount then ''expense'' else ''income'')"

definition row_category :: "string \<Rightarrow> string" where
  "row_category description =
     (let desc = toLowerCase description in
      if includes_str desc ''food'' \<or> includes_str desc ''restaurant'' then ''Food & Dining''
      else if includes_str desc ''gas'' \<or> includes_str desc ''uber'' then ''Transportation''
      else if includes_str desc ''amazon'' \<or> includes_str desc ''store'' then ''Shopping''
      else if includes_str desc ''electric'' \<or> includes_str desc ''utility'' then ''Bills & Utilities''
      else ''Other'')"

definition row_values ::
  "(string \<Rightarrow> jsnum) \<Rightarrow> string \<Rightarrow> string \<Rightarrow> csv_row \<Rightarrow> insert_transaction" where
  "row_values parseFloat userId now row =
     (let description = row_description row;
          amount = row_amount parseFloat row;
          date = row_date now row;
          type = row_type amount;
          category = row_category description
      in \<lparr>it_userId = userId, it_description = description, it_amount = amount,
          it_category = category, it_type = type, it_date = date\<rparr>)"

text \<open>
  The row handler is \<open>async\<close>. On its \<open>data\<close> event it runs up to the first
  \<open>await\<close>: it computes the values of the row and calls \<open>createTransaction\<close>,
  which draws the identifier and the timestamp and stops at the \<open>await\<close> of the insert.
  What is suspended there is the call with its arguments. The continuation does the
  insert and, when it did not throw, \<open>transactions.push(transaction)\<close>; when it threw,
  the \<open>catch\<close> skips the row.
\<close>

type_synonym suspended_row = "string \<times> string \<times> insert_transaction"

definition on_data ::
  "(string \<Rightarrow> jsnum) \<Rightarrow> string \<Rightarrow> string \<Rightarrow> string \<Rightarrow> csv_row \<Rightarrow> suspended_row" where
  "on_data parseFloat userId uuid now row = (uuid, now, row_values parseFloat userId now row)"

definition resume_row ::
  "suspended_row \<Rightarrow> transaction list \<Rightarrow> store \<Rightarrow> transaction list \<times> store" where
  "resume_row suspended transactions s =
     (case suspended of
        (uuid, now, insertTransaction) \<Rightarrow>
          (case createTransaction uuid now insertTransaction s of
             Inl e \<Rightarrow> (transactions, s)
           | Inr (transaction, s') \<Rightarrow> (transactions @ [transaction], s')))"

text \<open>Row number \<open>n\<close> gets the identifier \<open>uuids n\<close> at the time \<open>clock n\<close>.\<close>

fun on_data_all ::
  "(string \<Rightarrow> jsnum) \<Rightarrow> string \<Rightarrow> (nat \<Rightarrow> string) \<Rightarrow> (nat \<Rightarrow> string) \<Rightarrow> nat \<Rightarrow> csv_row list
     \<Rightarrow> suspended_row list" where
  "on_data_all parseFloat userId uuids clock n [] = []"
| "on_data_all parseFloat userId uuids clock n (row # rows) =
     on_data parseFloat userId (uuids n) (clock n) row
       # on_data_all parseFloat userId uuids clock (Suc n) rows"

fun resume_all ::
  "suspended_row list \<Rightarrow> transaction list \<Rightarrow> store \<Rightarrow> transaction list \<times> store" where
  "resume_all [] transactions s = (transactions, s)"
| "resume_all (suspended # rest) transactions s =
     (case resume_row suspended transactions s of
        (transactions', s') \<Rightarrow> resume_all rest transactions' s')"

text \<open>
  The order of the events. The file is one chunk in memory, so the stream emits every
  \<open>data\<close> event and then \<open>end\<close> from callbacks of the \<open>process.nextTick\<close>
  queue, and that queue runs to its end before any promise continuation runs. So the
  \<open>end\<close> listener reads \<open>transactions.length\<close> and sends the response while every
  row handler is still suspended and \<open>transactions\<close> is as it was declared, empty; the
  inserts and the pushes follow, in the order of the rows.
\<close>

definition upload_handler ::
  "(string \<Rightarrow> jsnum) \<Rightarrow> (string \<Rightarrow> csv_row list) \<Rightarrow> (nat \<Rightarrow> string) \<Rightarrow> (nat \<Rightarrow> string)
     \<Rightarrow> string option \<Rightarrow> int \<Rightarrow> obj option \<Rightarrow> string \<Rightarrow> store \<Rightarrow> response \<times> store" where
  "upload_handler parseFloat csvParser uuids clock file code parsed userId s =
     (case file of
        None \<Rightarrow> (Response 400 (message ''No file uploaded''), s)
      | Some csvData \<Rightarrow>
          if code = 0 then
            (case parsed of
               None \<Rightarrow> (Response 500 (message ''Failed to process CSV data''), s)
             | Some processResult \<Rightarrow>
                 if (case map_of processResult ''error'' of None \<Rightarrow> False | Some e \<Rightarrow> truthy e)
                 then (Response 400
                         (JObj [(''message'', or_else (map_of processResult ''error'') JNull)]), s)
                 else
                   (let transactions = [];
                        suspended = on_data_all parseFloat userId uuids clock 0
                                      (csvParser csvData);
                        response =
                          Response 200
                            (JObj (AList.update ''transactions_saved''
                                     (JNum (real (length transactions))) processResult))
                    in (response, snd (resume_all suspended transactions s))))
          else (Response 500 (message ''CSV processing failed''), s))"

section \<open>Derived metrics (client pages)\<close>

text \<open>The dashboard: \<open>Array.filter\<close> followed by \<open>Array.reduce\<close> from 0,
  which is a left fold.\<close>

definition totalIncome :: "transaction list \<Rightarrow> real" where
  "totalIncome transactions =
     foldl (\<lambda>sum t. sum + t_amount t) 0 (filter (\<lambda>t. t_type t = ''income'') transactions)"

definition totalExpenses :: "transaction list \<Rightarrow> real" where
  "totalExpenses transactions =
     foldl (\<lambda>sum t. sum + t_amount t) 0 (filter (\<lambda>t. t_type t = ''expense'') transactions)"

definition totalBalance :: "transaction list \<Rightarrow> real" where
  "totalBalance transactions = totalIncome transactions - totalExpenses transactions"

definition portfolioValue :: "investment list \<Rightarrow> real" where
  "portfolioValue investments =
     foldl (\<lambda>sum inv. sum + i_shares inv * i_currentPrice inv) 0 investments"

definition portfolioGain :: "investment list \<Rightarrow> real" where
  "portfolioGain investments =
     foldl (\<lambda>sum inv. sum + (i_currentPrice inv - i_purchasePrice inv) * i_shares inv) 0
       investments"

text \<open>The goals page computes, for each goal card, the progress, the remaining amount
  and the width of the progress bar (the \<open>style\<close> of the inner \<open>div\<close>).
  The column \<open>current_amount\<close> is nullable; JavaScript arithmetic reads \<open>null\<close>
  as 0.\<close>

fun js_num :: "real option \<Rightarrow> real" where
  "js_num None = 0"
| "js_num (Some x) = x"

definition progress :: "goal \<Rightarrow> real" where
  "progress goal =
     (if g_targetAmount goal > 0
      then (js_num (g_currentAmount goal) / g_targetAmount goal) * 100
      else 0)"

definition remaining :: "goal \<Rightarrow> real" where
  "remaining goal = g_targetAmount goal - js_num (g_currentAmount goal)"

definition barWidth :: "goal \<Rightarrow> real" where
  "barWidth goal = min (progress goal) 100"

section \<open>Example data\<close>

text \<open>Concrete inputs at which the theorems below are instantiated.\<close>

definition store0 :: store where
  "store0 = \<lparr>tbl_users = [], tbl_transactions = [], tbl_investments = [], tbl_goals = [],
     tbl_savingsTips = []\<rparr>"

definition parseFloat_ex :: "string \<Rightarrow> jsnum" where
  "parseFloat_ex v =
     (if v = ''-12.50'' then Num (-12.5) else if v = ''40'' then Num 40 else NaN)"

definition uuids_ex :: "nat \<Rightarrow> string" where
  "uuids_ex n = ''row-'' @ replicate n CHR ''i''"

definition clock_ex :: "nat \<Rightarrow> string" where
  "clock_ex n = ''2024-05-01T10:00:00.000Z''"

definition csv_ex :: "csv_row list" where
  "csv_ex =
     [[(''description'', ''Pizza Restaurant''), (''amount'', ''-12.50'')],
      [(''description'', ''Broken''), (''amount'', ''n/a'')],
      [(''memo'', ''Uber ride''), (''amount'', []), (''debit'', ''40''),
       (''date'', ''2024-04-30'')]]"

definition validateToken_ex :: "string \<Rightarrow> string option" where
  "validateToken_ex token =
     (if token = ''token-u1'' then Some ''u1''
      else if token = ''token-u2'' then Some ''u2'' else None)"

definition hashPassword_ex :: "string \<Rightarrow> string" where
  "hashPassword_ex password = CHR ''#'' # password"

definition verifyPassword_ex :: "string \<Rightarrow> string \<Rightarrow> bool" where
  "verifyPassword_ex password digest = (digest = CHR ''#'' # password)"

definition generateToken_ex :: "string \<Rightarrow> string" where
  "generateToken_ex userId = ''token-'' @ userId"

definition isEmail_ex :: "string \<Rightarrow> bool" where
  "isEmail_ex email = (CHR ''@'' \<in> set email)"

definition alice :: user where
  "alice = \<lparr>u_id = ''u1'', u_email = ''alice@example.com'', u_password = ''#secret1'',
     u_firstName = ''Alice'', u_lastName = ''Ames'',
     u_createdAt = ''2024-01-01T00:00:00.000Z''\<rparr>"

definition bob :: user where
  "bob = \<lparr>u_id = ''u2'', u_email = ''bob@example.com'', u_password = ''#hunter22'',
     u_firstName = ''Bob'', u_lastName = ''Birch'',
     u_createdAt = ''2024-01-02T00:00:00.000Z''\<rparr>"

definition store_users :: store where
  "store_users = store0\<lparr>tbl_users := [alice, bob]\<rparr>"

definition register_body_ex :: obj where
  "register_body_ex =
     [(''email'', JStr ''carol@example.com''), (''password'', JStr ''opensesame''),
      (''firstName'', JStr ''Carol''), (''lastName'', JStr ''Cole'')]"

definition duplicate_body_ex :: obj where
  "duplicate_body_ex =
     [(''email'', JStr ''alice@example.com''), (''password'', JStr ''opensesame''),
      (''firstName'', JStr ''Alicia''), (''lastName'', JStr ''Ames'')]"

definition transaction_body_ex :: obj where
  "transaction_body_ex =
     [(''userId'', JStr ''u2''), (''description'', JStr ''Rent''), (''amount'', JNum 900),
      (''category'', JStr ''Housing''), (''type'', JStr ''expense''),
      (''date'', JStr ''2024-05-01'')]"

definition investment_body_ex :: obj where
  "investment_body_ex =
     [(''userId'', JStr ''u2''), (''symbol'', JStr ''ACME''), (''name'', JStr ''Acme Corp''),
      (''type'', JStr ''stock''), (''shares'', JNum 10), (''purchasePrice'', JNum 100),
      (''currentPrice'', JNum 150), (''purchaseDate'', JStr ''2024-02-01'')]"

definition goal_body_ex :: obj where
  "goal_body_ex =
     [(''userId'', JStr ''u2''), (''title'', JStr ''Car''), (''targetAmount'', JNum 1000),
      (''targetDate'', JStr ''2026-01-01''), (''category'', JStr ''savings'')]"

definition store_users' :: store where
  "store_users' = store0\<lparr>tbl_users := [alice\<lparr>u_password := ''changed''\<rparr>, bob]\<rparr>"

definition login_body_ex :: obj where
  "login_body_ex = [(''email'', JStr ''alice@example.com''), (''password'', JStr ''secret1'')]"






definition reassign_body_ex :: obj where
  "reassign_body_ex = [(''userId'', JStr ''u1'')]"

definition store_created :: store where
  "store_created =
     store_users\<lparr>tbl_transactions :=
       [\<lparr>t_id = ''t-1'', t_userId = ''u2'', t_description = ''Rent'', t_amount = 900,
         t_category = ''Housing'', t_type = ''expense'', t_date = ''2024-05-01'',
         t_createdAt = ''2024-05-02T08:00:00.000Z''\<rparr>]\<rparr>"

definition store_reassigned :: store where
  "store_reassigned =
     store_users\<lparr>tbl_transactions :=
       [\<lparr>t_id = ''t-1'', t_userId = ''u1'', t_description = ''Rent'', t_amount = 900,
         t_category = ''Housing'', t_type = ''expense'', t_date = ''2024-05-01'',
         t_createdAt = ''2024-05-02T08:00:00.000Z''\<rparr>]\<rparr>"

section \<open>Properties of the derived metrics\<close>

lemma foldl_plus_sum_list:
  "foldl (\<lambda>sum x. sum + f x) a xs = a + sum_list (map f xs)"
  for a :: real
  by (induction xs arbitrary: a) (simp_all add: add.assoc)

text \<open>
  Claim C3. For every list of transactions the dashboard's balance is the sum of the
  amounts of the transactions of type income minus the sum of the amounts of the
  transactions of type expense; for an income of 1000 and expenses of 300 and 200 (whatever
  the other fields are) the balance is 500.
\<close>

theorem totalBalance_sums:
  "totalBalance ts =
     (\<Sum>t\<leftarrow>filter (\<lambda>t. t_type t = ''income'') ts. t_amount t)
     - (\<Sum>t\<leftarrow>filter (\<lambda>t. t_type t = ''expense'') ts. t_amount t)
   \<and> totalBalance
        [a\<lparr>t_type := ''income'', t_amount := 1000\<rparr>,
         b\<lparr>t_type := ''expense'', t_amount := 300\<rparr>,
         c\<lparr>t_type := ''expense'', t_amount := 200\<rparr>] = 500"
  by (simp add: totalBalance_def totalIncome_def totalExpenses_def foldl_plus_sum_list)

text \<open>
  Claim C5. For every list of investments the portfolio value is the sum of
  shares times current price and the portfolio gain is the sum of shares times
  (current price minus purchase price); one investment of 10 shares bought at 100 and
  now at 150 is worth 1500 with a gain of 500.
\<close>

theorem portfolio_sums:
  "portfolioValue invs = (\<Sum>inv\<leftarrow>invs. i_shares inv * i_currentPrice inv)
   \<and> portfolioGain invs =
       (\<Sum>inv\<leftarrow>invs. i_shares inv * (i_currentPrice inv - i_purchasePrice inv))
   \<and> portfolioValue
        [x\<lparr>i_shares := 10, i_purchasePrice := 100, i_currentPrice := 150\<rparr>] = 1500
   \<and> portfolioGain
        [x\<lparr>i_shares := 10, i_purchasePrice := 100, i_currentPrice := 150\<rparr>] = 500"
  by (simp add: portfolioValue_def portfolioGain_def foldl_plus_sum_list mult.commute)

text \<open>
  Claim C4, as stated, caps the progress percentage at 100. The page computes the
  percentage without a cap and shows it as text (\<open>progress.toFixed(1)\<close>); only the width
  of the bar is \<open>Math.min(progress, 100)\<close>. A goal of 1000 with 1500 saved has a
  progress of 150.
\<close>

theorem progress_exceeds_cap:
  "progress \<lparr>g_id = ''g1'', g_userId = ''u1'', g_title = ''Car'', g_description = None,
       g_targetAmount = 1000, g_currentAmount = Some 1500, g_targetDate = ''2026-01-01'',
       g_category = ''savings'', g_createdAt = ''2025-01-01T00:00:00.000Z''\<rparr>
     = 150
   \<and> progress \<lparr>g_id = ''g1'', g_userId = ''u1'', g_title = ''Car'', g_description = None,
       g_targetAmount = 1000, g_currentAmount = Some 1500, g_targetDate = ''2026-01-01'',
       g_category = ''savings'', g_createdAt = ''2025-01-01T00:00:00.000Z''\<rparr>
     \<noteq> min ((1500::real) / 1000) 1 * 100"
  by (simp add: progress_def)

text \<open>
  Claim C4, amended. For a goal with a positive target the progress percentage is
  currentAmount / targetAmount times 100, uncapped: it is min(currentAmount / targetAmount,
  1) times 100 when currentAmount is at most the target and more than 100 when
  currentAmount is larger. The width of the progress bar is min(currentAmount /
  targetAmount, 1) times 100. With a target that is not positive the progress is 0. The
  remaining amount is targetAmount minus currentAmount. For a target of 1000 and a
  current amount of 250 the progress is 25 and the remaining amount 750.
\<close>

theorem goal_metrics:
  "(0 < g_targetAmount g \<longrightarrow>
      progress g = js_num (g_currentAmount g) / g_targetAmount g * 100)
   \<and> (0 < g_targetAmount g \<and> js_num (g_currentAmount g) \<le> g_targetAmount g \<longrightarrow>
      progress g = min (js_num (g_currentAmount g) / g_targetAmount g) 1 * 100)
   \<and> (0 < g_targetAmount g \<and> g_targetAmount g < js_num (g_currentAmount g) \<longrightarrow>
      100 < progress g)
   \<and> (0 < g_targetAmount g \<longrightarrow>
      barWidth g = min (js_num (g_currentAmount g) / g_targetAmount g) 1 * 100)
   \<and> (g_targetAmount g \<le> 0 \<longrightarrow> progress g = 0)
   \<and> remaining g = g_targetAmount g - js_num (g_currentAmount g)
   \<and> progress (g\<lparr>g_targetAmount := 1000, g_currentAmount := Some 250\<rparr>) = 25
   \<and> remaining (g\<lparr>g_targetAmount := 1000, g_currentAmount := Some 250\<rparr>) = 750"
  by (auto simp: progress_def barWidth_def remaining_def min_def field_simps)

theorem goal_metrics_witness:
  "progress \<lparr>g_id = ''g1'', g_userId = ''u1'', g_title = ''Car'', g_description = None,
       g_targetAmount = 1000, g_currentAmount = Some 250, g_targetDate = ''2026-01-01'',
       g_category = ''savings'', g_createdAt = ''2025-01-01T00:00:00.000Z''\<rparr>
     = min ((250::real) / 1000) 1 * 100
   \<and> barWidth \<lparr>g_id = ''g1'', g_userId = ''u1'', g_title = ''Car'', g_description = None,
       g_targetAmount = 1000, g_currentAmount = Some 250, g_targetDate = ''2026-01-01'',
       g_category = ''savings'', g_createdAt = ''2025-01-01T00:00:00.000Z''\<rparr>
     = 25"
  using goal_metrics [of "\<lparr>g_id = ''g1'', g_userId = ''u1'', g_title = ''Car'',
       g_description = None, g_targetAmount = 1000, g_currentAmount = Some 250,
       g_targetDate = ''2026-01-01'', g_category = ''savings'',
       g_createdAt = ''2025-01-01T00:00:00.000Z''\<rparr>"]
  by simp

section \<open>CSV ingestion\<close>

lemma createTransaction_Inr:
  "createTransaction uuid now ins s = Inr (t, s') \<longleftrightarrow>
     (\<exists>a. it_amount ins = Num a
        \<and> it_userId ins \<in> u_id ` set (tbl_users s)
        \<and> uuid \<notin> t_id ` set (tbl_transactions s)
        \<and> t = \<lparr>t_id = uuid, t_userId = it_userId ins, t_description = it_description ins,
             t_amount = a, t_category = it_category ins, t_type = it_type ins,
             t_date = it_date ins, t_createdAt = now\<rparr>
        \<and> s' = s\<lparr>tbl_transactions := tbl_transactions s @ [t]\<rparr>)"
  by (auto simp: createTransaction_def Let_def split: jsnum.splits)

lemma js_abs_Num: "js_abs a = Num y \<longleftrightarrow> (\<exists>x. a = Num x \<and> y = \<bar>x\<bar>)"
  by (cases a) auto

lemma row_values_simps:
  "it_userId (row_values pf userId now row) = userId"
  "it_description (row_values pf userId now row) = row_description row"
  "it_amount (row_values pf userId now row) = js_abs (parsed_amount pf row)"
  "it_category (row_values pf userId now row) = row_category (row_description row)"
  "it_type (row_values pf userId now row) = row_type (js_abs (parsed_amount pf row))"
  "it_date (row_values pf userId now row) = row_date now row"
  by (simp_all add: row_values_def Let_def row_amount_def)

lemma row_type_abs: "row_type (js_abs (Num x)) = (if x \<noteq> 0 then ''expense'' else ''income'')"
  by (simp add: row_type_def)

lemma resume_on_data_stored:
  assumes "parsed_amount pf row = Num x" "userId \<in> u_id ` set (tbl_users s)"
    "uuid \<notin> t_id ` set (tbl_transactions s)"
  shows "resume_row (on_data pf userId uuid now row) transactions s =
     (transactions @
        [\<lparr>t_id = uuid, t_userId = userId, t_description = row_description row,
          t_amount = \<bar>x\<bar>, t_category = row_category (row_description row),
          t_type = (if x \<noteq> 0 then ''expense'' else ''income''),
          t_date = row_date now row, t_createdAt = now\<rparr>],
      s\<lparr>tbl_transactions := tbl_transactions s @
        [\<lparr>t_id = uuid, t_userId = userId, t_description = row_description row,
          t_amount = \<bar>x\<bar>, t_category = row_category (row_description row),
          t_type = (if x \<noteq> 0 then ''expense'' else ''income''),
          t_date = row_date now row, t_createdAt = now\<rparr>]\<rparr>)"
proof -
  let ?t = "\<lparr>t_id = uuid, t_userId = userId, t_description = row_description row,
          t_amount = \<bar>x\<bar>, t_category = row_category (row_description row),
          t_type = (if x \<noteq> 0 then ''expense'' else ''income''),
          t_date = row_date now row, t_createdAt = now\<rparr>"
  have "createTransaction uuid now (row_values pf userId now row) s =
          Inr (?t, s\<lparr>tbl_transactions := tbl_transactions s @ [?t]\<rparr>)"
    unfolding createTransaction_Inr using assms
    by (auto simp: row_values_simps row_type_def)
  then show ?thesis by (simp add: resume_row_def on_data_def)
qed

lemma resume_on_data_cases:
  "resume_row (on_data pf userId uuid now row) transactions s = (transactions, s)
   \<or> (\<exists>x. parsed_amount pf row = Num x \<and> userId \<in> u_id ` set (tbl_users s)
         \<and> uuid \<notin> t_id ` set (tbl_transactions s))"
proof (cases "createTransaction uuid now (row_values pf userId now row) s")
  case (Inl e)
  then show ?thesis by (simp add: resume_row_def on_data_def)
next
  case (Inr p)
  obtain t s1 where "createTransaction uuid now (row_values pf userId now row) s = Inr (t, s1)"
    using Inr by (cases p) simp
  then show ?thesis
    by (auto simp: createTransaction_Inr row_values_simps js_abs_Num)
qed

text \<open>
  Claim C6. A CSV row whose amount parses is stored (the uploading user exists and the
  identifier is new) with the absolute value of the parsed amount, and its kind is
  decided on that absolute value: expense exactly when the stored amount is strictly
  positive and income otherwise. So the sign of the parsed amount has no influence: the
  kind is expense exactly when the parsed amount is not zero, and a parser that yields
  the negated amount stores the same record. Conversely every record that the row
  handler adds to the store has these properties.
\<close>

theorem upload_row_kind:
  "(parsed_amount pf row = Num x \<and> userId \<in> u_id ` set (tbl_users s)
      \<and> uuid \<notin> t_id ` set (tbl_transactions s) \<longrightarrow>
     (\<exists>t. resume_row (on_data pf userId uuid now row) transactions s
             = (transactions @ [t], s\<lparr>tbl_transactions := tbl_transactions s @ [t]\<rparr>)
        \<and> t_userId t = userId \<and> t_amount t = \<bar>x\<bar>
        \<and> (t_type t = ''expense'') = (0 < t_amount t)
        \<and> (t_type t = ''income'') = (\<not> 0 < t_amount t)
        \<and> (t_type t = ''expense'') = (x \<noteq> 0)
        \<and> (\<forall>pf'. parsed_amount pf' row = Num (- x) \<longrightarrow>
              resume_row (on_data pf' userId uuid now row) transactions s
                = (transactions @ [t], s\<lparr>tbl_transactions := tbl_transactions s @ [t]\<rparr>))))
   \<and> (\<forall>t \<in> set (tbl_transactions
                   (snd (resume_row (on_data pf userId uuid now row) transactions s)))
              - set (tbl_transactions s).
         \<exists>y. parsed_amount pf row = Num y \<and> t_amount t = \<bar>y\<bar>
           \<and> (t_type t = ''expense'') = (0 < t_amount t)
           \<and> (t_type t = ''income'') = (\<not> 0 < t_amount t))"
proof (intro conjI impI ballI)
  assume a: "parsed_amount pf row = Num x \<and> userId \<in> u_id ` set (tbl_users s)
      \<and> uuid \<notin> t_id ` set (tbl_transactions s)"
  let ?t = "\<lparr>t_id = uuid, t_userId = userId, t_description = row_description row,
          t_amount = \<bar>x\<bar>, t_category = row_category (row_description row),
          t_type = (if x \<noteq> 0 then ''expense'' else ''income''),
          t_date = row_date now row, t_createdAt = now\<rparr>"
  have r: "resume_row (on_data pf userId uuid now row) transactions s
             = (transactions @ [?t], s\<lparr>tbl_transactions := tbl_transactions s @ [?t]\<rparr>)"
    using a by (simp add: resume_on_data_stored)
  have "resume_row (on_data pf' userId uuid now row) transactions s
             = (transactions @ [?t], s\<lparr>tbl_transactions := tbl_transactions s @ [?t]\<rparr>)"
    if "parsed_amount pf' row = Num (- x)" for pf'
    using resume_on_data_stored [of pf' row "- x" userId s uuid now transactions] that a
    by simp
  with r show "\<exists>t. resume_row (on_data pf userId uuid now row) transactions s
             = (transactions @ [t], s\<lparr>tbl_transactions := tbl_transactions s @ [t]\<rparr>)
        \<and> t_userId t = userId \<and> t_amount t = \<bar>x\<bar>
        \<and> (t_type t = ''expense'') = (0 < t_amount t)
        \<and> (t_type t = ''income'') = (\<not> 0 < t_amount t)
        \<and> (t_type t = ''expense'') = (x \<noteq> 0)
        \<and> (\<forall>pf'. parsed_amount pf' row = Num (- x) \<longrightarrow>
              resume_row (on_data pf' userId uuid now row) transactions s
                = (transactions @ [t], s\<lparr>tbl_transactions := tbl_transactions s @ [t]\<rparr>))"
    by (intro exI [of _ ?t]) auto
next
  fix t
  assume t: "t \<in> set (tbl_transactions
                   (snd (resume_row (on_data pf userId uuid now row) transactions s)))
              - set (tbl_transactions s)"
  from resume_on_data_cases [of pf userId uuid now row transactions s]
  show "\<exists>y. parsed_amount pf row = Num y \<and> t_amount t = \<bar>y\<bar>
           \<and> (t_type t = ''expense'') = (0 < t_amount t)
           \<and> (t_type t = ''income'') = (\<not> 0 < t_amount t)"
  proof
    assume "resume_row (on_data pf userId uuid now row) transactions s = (transactions, s)"
    with t show ?thesis by simp
  next
    assume "\<exists>x. parsed_amount pf row = Num x \<and> userId \<in> u_id ` set (tbl_users s)
         \<and> uuid \<notin> t_id ` set (tbl_transactions s)"
    then obtain y where y: "parsed_amount pf row = Num y"
      "userId \<in> u_id ` set (tbl_users s)" "uuid \<notin> t_id ` set (tbl_transactions s)"
      by blast
    from t show ?thesis
      unfolding resume_on_data_stored [OF y] using y(1) by auto
  qed
qed

theorem upload_row_kind_witness:
  "(\<exists>t. resume_row (on_data parseFloat_ex ''u1'' ''id-0'' ''2024-05-01T10:00:00.000Z''
                      (csv_ex ! 0)) [] store_users
          = ([t], store_users\<lparr>tbl_transactions := [t]\<rparr>)
        \<and> t_userId t = ''u1'' \<and> t_amount t = 12.5 \<and> t_type t = ''expense'')
   \<and> (\<exists>y. parsed_amount parseFloat_ex (csv_ex ! 0) = Num y
        \<and> t_amount \<lparr>t_id = ''id-0'', t_userId = ''u1'', t_description = ''Pizza Restaurant'',
             t_amount = 12.5, t_category = ''Food & Dining'', t_type = ''expense'',
             t_date = ''2024-05-01'', t_createdAt = ''2024-05-01T10:00:00.000Z''\<rparr> = \<bar>y\<bar>)"
proof -
  have p: "parsed_amount parseFloat_ex (csv_ex ! 0) = Num (- 12.5)"
    by code_simp
  have h: "parsed_amount parseFloat_ex (csv_ex ! 0) = Num (- 12.5)
           \<and> ''u1'' \<in> u_id ` set (tbl_users store_users)
           \<and> ''id-0'' \<notin> t_id ` set (tbl_transactions store_users)"
    using p by (simp add: store_users_def store0_def alice_def)
  have r: "resume_row (on_data parseFloat_ex ''u1'' ''id-0'' ''2024-05-01T10:00:00.000Z''
                      (csv_ex ! 0)) [] store_users =
           ([\<lparr>t_id = ''id-0'', t_userId = ''u1'', t_description = ''Pizza Restaurant'',
              t_amount = 12.5, t_category = ''Food & Dining'', t_type = ''expense'',
              t_date = ''2024-05-01'', t_createdAt = ''2024-05-01T10:00:00.000Z''\<rparr>],
            store_users\<lparr>tbl_transactions :=
              [\<lparr>t_id = ''id-0'', t_userId = ''u1'', t_description = ''Pizza Restaurant'',
                t_amount = 12.5, t_category = ''Food & Dining'', t_type = ''expense'',
                t_date = ''2024-05-01'', t_createdAt = ''2024-05-01T10:00:00.000Z''\<rparr>]\<rparr>)"
    by code_simp
  note inst = upload_row_kind [where pf = parseFloat_ex and row = "csv_ex ! 0"
      and userId = "''u1''" and s = store_users and uuid = "''id-0''"
      and now = "''2024-05-01T10:00:00.000Z''" and transactions = "[]"]
  from inst [where x = "- 12.5", THEN conjunct1, rule_format, OF h]
  have c1: "\<exists>t. resume_row (on_data parseFloat_ex ''u1'' ''id-0'' ''2024-05-01T10:00:00.000Z''
                      (csv_ex ! 0)) [] store_users
          = ([t], store_users\<lparr>tbl_transactions := [t]\<rparr>)
        \<and> t_userId t = ''u1'' \<and> t_amount t = 12.5 \<and> t_type t = ''expense''"
    by (auto simp: store_users_def store0_def)
  from inst [where x = 0, THEN conjunct2, rule_format,
      of "\<lparr>t_id = ''id-0'', t_userId = ''u1'', t_description = ''Pizza Restaurant'',
             t_amount = 12.5, t_category = ''Food & Dining'', t_type = ''expense'',
             t_date = ''2024-05-01'', t_createdAt = ''2024-05-01T10:00:00.000Z''\<rparr>"]
  have c2: "\<exists>y. parsed_amount parseFloat_ex (csv_ex ! 0) = Num y
        \<and> t_amount \<lparr>t_id = ''id-0'', t_userId = ''u1'', t_description = ''Pizza Restaurant'',
             t_amount = 12.5, t_category = ''Food & Dining'', t_type = ''expense'',
             t_date = ''2024-05-01'', t_createdAt = ''2024-05-01T10:00:00.000Z''\<rparr> = \<bar>y\<bar>"
    unfolding r by (auto simp: store_users_def store0_def)
  from c1 c2 show ?thesis by blast
qed

lemma resume_all_spec:
  "resume_all suspended transactions s = (transactions', s') \<Longrightarrow>
     \<exists>new. transactions' = transactions @ new
       \<and> s' = s\<lparr>tbl_transactions := tbl_transactions s @ new\<rparr>"
proof (induction suspended arbitrary: transactions s)
  case Nil
  then show ?case by simp
next
  case (Cons p ps)
  obtain uuid now ins where p: "p = (uuid, now, ins)" by (cases p)
  show ?case
  proof (cases "createTransaction uuid now ins s")
    case (Inl e)
    with Cons.prems p have "resume_all ps transactions s = (transactions', s')"
      by (simp add: resume_row_def)
    from Cons.IH [OF this] show ?thesis .
  next
    case (Inr q)
    obtain t s1 where c: "createTransaction uuid now ins s = Inr (t, s1)"
      using Inr by (cases q) simp
    then have s1: "s1 = s\<lparr>tbl_transactions := tbl_transactions s @ [t]\<rparr>"
      unfolding createTransaction_Inr by blast
    from Cons.prems p c have "resume_all ps (transactions @ [t]) s1 = (transactions', s')"
      by (simp add: resume_row_def)
    from Cons.IH [OF this] obtain new where
      "transactions' = (transactions @ [t]) @ new"
      "s' = s1\<lparr>tbl_transactions := tbl_transactions s1 @ new\<rparr>"
      by blast
    with s1 show ?thesis by (intro exI [of _ "t # new"]) simp
  qed
qed

lemma upload_success_reports_zero:
  assumes "code = 0" "parsed = Some processResult"
    and "\<forall>e. map_of processResult ''error'' = Some e \<longrightarrow> \<not> truthy e"
  shows "fst (upload_handler pf csvParser uuids clock (Some csvData) code parsed userId s) =
           Response 200
             (JObj (AList.update ''transactions_saved'' (JNum 0) processResult))"
    and "snd (upload_handler pf csvParser uuids clock (Some csvData) code parsed userId s) =
           snd (resume_all (on_data_all pf userId uuids clock 0 (csvParser csvData)) [] s)"
proof -
  have flag: "(case map_of processResult ''error'' of None \<Rightarrow> False | Some e \<Rightarrow> truthy e) = False"
    using assms(3) by (auto split: option.splits)
  show "fst (upload_handler pf csvParser uuids clock (Some csvData) code parsed userId s) =
           Response 200
             (JObj (AList.update ''transactions_saved'' (JNum 0) processResult))"
    using assms(1,2) flag by (simp add: upload_handler_def Let_def)
  show "snd (upload_handler pf csvParser uuids clock (Some csvData) code parsed userId s) =
           snd (resume_all (on_data_all pf userId uuids clock 0 (csvParser csvData)) [] s)"
    using assms(1,2) flag by (simp add: upload_handler_def Let_def)
qed

lemma upload_failure_stores_nothing:
  assumes "file = None \<or> code \<noteq> 0 \<or> parsed = None
           \<or> (\<exists>processResult e. parsed = Some processResult
                 \<and> map_of processResult ''error'' = Some e \<and> truthy e)"
  shows "snd (upload_handler pf csvParser uuids clock file code parsed userId s) = s"
  using assms by (auto simp: upload_handler_def split: option.splits)

lemma resume_all_on_data_all:
  assumes "userId \<in> u_id ` set (tbl_users s)"
    and "inj uuids"
    and "\<forall>i\<ge>n. uuids i \<notin> t_id ` set (tbl_transactions s)"
  shows "\<exists>new. resume_all (on_data_all pf userId uuids clock n rows) transactions s =
           (transactions @ new, s\<lparr>tbl_transactions := tbl_transactions s @ new\<rparr>)
         \<and> length new = length (filter (\<lambda>row. parsed_amount pf row \<noteq> NaN) rows)
         \<and> (\<forall>t\<in>set new. t_userId t = userId \<and> 0 \<le> t_amount t
               \<and> (t_type t = ''expense'') = (0 < t_amount t)
               \<and> (t_type t = ''income'') = (t_amount t = 0))"
  using assms
proof (induction rows arbitrary: n transactions s)
  case Nil
  then show ?case by simp
next
  case (Cons row rows)
  have fresh: "uuids n \<notin> t_id ` set (tbl_transactions s)"
    using Cons.prems(3) by simp
  show ?case
  proof (cases "parsed_amount pf row")
    case NaN
    have "createTransaction (uuids n) (clock n) (row_values pf userId (clock n) row) s
            = Inl SqliteConstraint"
      using NaN by (simp add: createTransaction_def row_values_simps)
    then have r: "resume_row (on_data pf userId (uuids n) (clock n) row) transactions s
            = (transactions, s)"
      by (simp add: resume_row_def on_data_def)
    have "\<forall>i\<ge>Suc n. uuids i \<notin> t_id ` set (tbl_transactions s)"
      using Cons.prems(3) by simp
    from Cons.IH [OF Cons.prems(1,2) this, of transactions] NaN r
    show ?thesis by simp
  next
    case (Num x)
    let ?t = "\<lparr>t_id = uuids n, t_userId = userId, t_description = row_description row,
          t_amount = \<bar>x\<bar>, t_category = row_category (row_description row),
          t_type = (if x \<noteq> 0 then ''expense'' else ''income''),
          t_date = row_date (clock n) row, t_createdAt = clock n\<rparr>"
    let ?s1 = "s\<lparr>tbl_transactions := tbl_transactions s @ [?t]\<rparr>"
    have r: "resume_row (on_data pf userId (uuids n) (clock n) row) transactions s
            = (transactions @ [?t], ?s1)"
      by (rule resume_on_data_stored [OF Num Cons.prems(1) fresh])
    have u: "userId \<in> u_id ` set (tbl_users ?s1)"
      using Cons.prems(1) by simp
    have f: "\<forall>i\<ge>Suc n. uuids i \<notin> t_id ` set (tbl_transactions ?s1)"
    proof (intro allI impI)
      fix i assume "Suc n \<le> i"
      then have "uuids i \<noteq> uuids n" using Cons.prems(2) by (auto dest: injD)
      moreover have "uuids i \<notin> t_id ` set (tbl_transactions s)"
        using Cons.prems(3) \<open>Suc n \<le> i\<close> by simp
      ultimately show "uuids i \<notin> t_id ` set (tbl_transactions ?s1)" by simp
    qed
    from Cons.IH [OF u Cons.prems(2) f, of "transactions @ [?t]"]
    obtain new where new:
      "resume_all (on_data_all pf userId uuids clock (Suc n) rows) (transactions @ [?t]) ?s1 =
         ((transactions @ [?t]) @ new, ?s1\<lparr>tbl_transactions := tbl_transactions ?s1 @ new\<rparr>)"
      "length new = length (filter (\<lambda>row. parsed_amount pf row \<noteq> NaN) rows)"
      "\<forall>t\<in>set new. t_userId t = userId \<and> 0 \<le> t_amount t
               \<and> (t_type t = ''expense'') = (0 < t_amount t)
               \<and> (t_type t = ''income'') = (t_amount t = 0)"
      by blast
    show ?thesis
      using r new Num by (intro exI [of _ "?t # new"]) auto
  qed
qed

lemma upload_stores_rows_after_response:
  assumes "code = 0" "parsed = Some processResult"
    and "\<forall>e. map_of processResult ''error'' = Some e \<longrightarrow> \<not> truthy e"
    and "userId \<in> u_id ` set (tbl_users s)" "inj uuids"
    and "\<forall>i. uuids i \<notin> t_id ` set (tbl_transactions s)"
  shows "\<exists>new.
     upload_handler pf csvParser uuids clock (Some csvData) code parsed userId s =
       (Response 200 (JObj (AList.update ''transactions_saved'' (JNum 0) processResult)),
        s\<lparr>tbl_transactions := tbl_transactions s @ new\<rparr>)
     \<and> length new =
         length (filter (\<lambda>row. parsed_amount pf row \<noteq> NaN) (csvParser csvData))
     \<and> (\<forall>t\<in>set new. t_userId t = userId)"
proof -
  from resume_all_on_data_all [OF assms(4,5), of 0 pf clock "csvParser csvData" "[]"] assms(6)
  obtain new where new:
    "resume_all (on_data_all pf userId uuids clock 0 (csvParser csvData)) [] s =
       (new, s\<lparr>tbl_transactions := tbl_transactions s @ new\<rparr>)"
    "length new = length (filter (\<lambda>row. parsed_amount pf row \<noteq> NaN) (csvParser csvData))"
    "\<forall>t\<in>set new. t_userId t = userId"
    by auto
  have "upload_handler pf csvParser uuids clock (Some csvData) code parsed userId s =
       (Response 200 (JObj (AList.update ''transactions_saved'' (JNum 0) processResult)),
        s\<lparr>tbl_transactions := tbl_transactions s @ new\<rparr>)"
    using upload_success_reports_zero [OF assms(1-3), of pf csvParser uuids clock csvData userId s]
      new(1)
    by (simp add: prod_eq_iff)
  with new show ?thesis by blast
qed

text \<open>
  Claim C7 (the response's \<open>transactions_saved\<close> is the number of rows stored, and
  the user's transactions grow by that number) against the code. The rows whose amount
  does not parse are skipped without a report and the others are stored, but the
  response is sent on the \<open>end\<close> event, before any row handler has got past its
  \<open>await\<close>: \<open>transactions\<close> is still empty then. For a file of three rows, one of
  them with an amount that does not parse, the handler answers
  \<open>transactions_saved: 0\<close> and two rows are stored.
\<close>

theorem upload_reports_none_saved:
  "upload_handler parseFloat_ex (\<lambda>csvData. csv_ex) uuids_ex clock_ex
     (Some ''description,amount'') 0 (Some [(''rows_processed'', JNum 3)]) ''u1'' store_users =
     (Response 200 (JObj [(''rows_processed'', JNum 3), (''transactions_saved'', JNum 0)]),
      store_users\<lparr>tbl_transactions :=
        [\<lparr>t_id = ''row-'', t_userId = ''u1'', t_description = ''Pizza Restaurant'',
          t_amount = 12.5, t_category = ''Food & Dining'', t_type = ''expense'',
          t_date = ''2024-05-01'', t_createdAt = ''2024-05-01T10:00:00.000Z''\<rparr>,
         \<lparr>t_id = ''row-ii'', t_userId = ''u1'', t_description = ''Uber ride'',
          t_amount = 40, t_category = ''Transportation'', t_type = ''expense'',
          t_date = ''2024-04-30'', t_createdAt = ''2024-05-01T10:00:00.000Z''\<rparr>]\<rparr>)
   \<and> tbl_transactions store_users = []"
  by code_simp

section \<open>Ownership of created records\<close>

lemma get_str_update_same: "get_str (AList.update k (JStr v) ob) k = Some v"
  by (simp add: get_str_def update_conv')

lemma transaction_parse_owner:
  "insertTransactionSchema_parse (AList.update ''userId'' (JStr uid) body) = Some d
     \<Longrightarrow> it_userId d = uid"
  by (auto simp: insertTransactionSchema_parse_def get_str_update_same
      split: Option.bind_splits)

lemma investment_parse_owner:
  "insertInvestmentSchema_parse (AList.update ''userId'' (JStr uid) body) = Some d
     \<Longrightarrow> ii_userId d = uid"
  by (auto simp: insertInvestmentSchema_parse_def get_str_update_same
      split: Option.bind_splits)

lemma goal_parse_owner:
  "insertGoalSchema_parse (AList.update ''userId'' (JStr uid) body) = Some d
     \<Longrightarrow> ig_userId d = uid"
  by (auto simp: insertGoalSchema_parse_def get_str_update_same
      split: Option.bind_splits)

lemma createInvestment_Inr:
  "createInvestment uuid now ins s = Inr (i, s') \<Longrightarrow>
     i_userId i = ii_userId ins \<and> s' = s\<lparr>tbl_investments := tbl_investments s @ [i]\<rparr>"
  by (auto simp: createInvestment_def Let_def split: if_splits)

lemma createGoal_Inr:
  "createGoal uuid now ins s = Inr (g, s') \<Longrightarrow>
     g_userId g = ig_userId ins \<and> s' = s\<lparr>tbl_goals := tbl_goals s @ [g]\<rparr>"
  by (auto simp: createGoal_def Let_def split: if_splits)

lemma post_transactions_owner:
  assumes "post_transactions_handler uuid now body uid s = (Response st b, s')"
  shows "(st = 200 \<and> (\<exists>t. s' = s\<lparr>tbl_transactions := tbl_transactions s @ [t]\<rparr>
             \<and> t_userId t = uid \<and> b = transaction_json t))
         \<or> (st = 400 \<and> s' = s)"
proof (cases "insertTransactionSchema_parse (AList.update ''userId'' (JStr uid) body)")
  case None
  with assms show ?thesis by (simp add: post_transactions_handler_def)
next
  case (Some d)
  note own = transaction_parse_owner [OF Some]
  show ?thesis
  proof (cases "createTransaction uuid now d s")
    case (Inl e)
    with Some assms show ?thesis by (simp add: post_transactions_handler_def)
  next
    case (Inr p)
    obtain t s1 where c: "createTransaction uuid now d s = Inr (t, s1)"
      using Inr by (cases p) simp
    then have "t_userId t = uid" "s1 = s\<lparr>tbl_transactions := tbl_transactions s @ [t]\<rparr>"
      using own by (auto simp: createTransaction_Inr)
    with Some c assms show ?thesis by (auto simp: post_transactions_handler_def)
  qed
qed

lemma post_investments_owner:
  assumes "post_investments_handler uuid now body uid s = (Response st b, s')"
  shows "(st = 200 \<and> (\<exists>i. s' = s\<lparr>tbl_investments := tbl_investments s @ [i]\<rparr>
             \<and> i_userId i = uid \<and> b = investment_json i))
         \<or> (st = 400 \<and> s' = s)"
proof (cases "insertInvestmentSchema_parse (AList.update ''userId'' (JStr uid) body)")
  case None
  with assms show ?thesis by (simp add: post_investments_handler_def)
next
  case (Some d)
  note own = investment_parse_owner [OF Some]
  show ?thesis
  proof (cases "createInvestment uuid now d s")
    case (Inl e)
    with Some assms show ?thesis by (simp add: post_investments_handler_def)
  next
    case (Inr p)
    obtain i s1 where c: "createInvestment uuid now d s = Inr (i, s1)"
      using Inr by (cases p) simp
    from createInvestment_Inr [OF c] own
    have "i_userId i = uid" "s1 = s\<lparr>tbl_investments := tbl_investments s @ [i]\<rparr>"
      by simp_all
    with Some c assms show ?thesis by (auto simp: post_investments_handler_def)
  qed
qed

lemma post_goals_owner:
  assumes "post_goals_handler uuid now body uid s = (Response st b, s')"
  shows "(st = 200 \<and> (\<exists>g. s' = s\<lparr>tbl_goals := tbl_goals s @ [g]\<rparr>
             \<and> g_userId g = uid))
         \<or> (st = 400 \<and> s' = s)"
proof (cases "insertGoalSchema_parse (AList.update ''userId'' (JStr uid) body)")
  case None
  with assms show ?thesis by (simp add: post_goals_handler_def)
next
  case (Some d)
  note own = goal_parse_owner [OF Some]
  show ?thesis
  proof (cases "createGoal uuid now d s")
    case (Inl e)
    with Some assms show ?thesis by (simp add: post_goals_handler_def)
  next
    case (Inr p)
    obtain g s1 where c: "createGoal uuid now d s = Inr (g, s1)"
      using Inr by (cases p) simp
    from createGoal_Inr [OF c] own
    have "g_userId g = uid" "s1 = s\<lparr>tbl_goals := tbl_goals s @ [g]\<rparr>"
      by simp_all
    with Some c assms show ?thesis by (auto simp: post_goals_handler_def)
  qed
qed

lemma post_ignores_body_owner:
  "post_transactions_handler uuid now (AList.update ''userId'' forged body) uid s =
     post_transactions_handler uuid now body uid s"
  "post_investments_handler uuid now (AList.update ''userId'' forged body) uid s =
     post_investments_handler uuid now body uid s"
  "post_goals_handler uuid now (AList.update ''userId'' forged body) uid s =
     post_goals_handler uuid now body uid s"
  by (simp_all add: post_transactions_handler_def post_investments_handler_def
      post_goals_handler_def)

text \<open>
  Claim C2. For an authenticated create request for a transaction, an investment or a
  goal, the handler either stores exactly one new record, whose owner is the caller's
  identifier as validated from the bearer token, or answers 400 and stores nothing. An
  owner field in the request body has no effect: the request with any other
  \<open>userId\<close> in its body has the same outcome.
\<close>

theorem create_owner_is_caller:
  assumes "validateToken token = Some uid"
  shows "(\<forall>st b s'. authenticateToken validateToken (Some token)
             (post_transactions_handler uuid now body) s = (Response st b, s') \<longrightarrow>
           (st = 200 \<and> (\<exists>t. s' = s\<lparr>tbl_transactions := tbl_transactions s @ [t]\<rparr>
               \<and> t_userId t = uid \<and> b = transaction_json t))
           \<or> (st = 400 \<and> s' = s))
       \<and> (\<forall>st b s'. authenticateToken validateToken (Some token)
             (post_investments_handler uuid now body) s = (Response st b, s') \<longrightarrow>
           (st = 200 \<and> (\<exists>i. s' = s\<lparr>tbl_investments := tbl_investments s @ [i]\<rparr>
               \<and> i_userId i = uid \<and> b = investment_json i))
           \<or> (st = 400 \<and> s' = s))
       \<and> (\<forall>st b s'. authenticateToken validateToken (Some token)
             (post_goals_handler uuid now body) s = (Response st b, s') \<longrightarrow>
           (st = 200 \<and> (\<exists>g. s' = s\<lparr>tbl_goals := tbl_goals s @ [g]\<rparr>
               \<and> g_userId g = uid))
           \<or> (st = 400 \<and> s' = s))
       \<and> authenticateToken validateToken (Some token)
            (post_transactions_handler uuid now (AList.update ''userId'' forged body)) s =
          authenticateToken validateToken (Some token)
            (post_transactions_handler uuid now body) s
       \<and> authenticateToken validateToken (Some token)
            (post_investments_handler uuid now (AList.update ''userId'' forged body)) s =
          authenticateToken validateToken (Some token)
            (post_investments_handler uuid now body) s
       \<and> authenticateToken validateToken (Some token)
            (post_goals_handler uuid now (AList.update ''userId'' forged body)) s =
          authenticateToken validateToken (Some token)
            (post_goals_handler uuid now body) s"
  using assms post_transactions_owner [of uuid now body uid s]
    post_investments_owner [of uuid now body uid s]
    post_goals_owner [of uuid now body uid s]
  by (simp add: authenticateToken_def post_ignores_body_owner)

theorem create_owner_is_caller_witness:
  "(\<exists>t. snd (authenticateToken validateToken_ex (Some ''token-u1'')
               (post_transactions_handler ''id-1'' ''2024-05-02T08:00:00.000Z''
                  transaction_body_ex) store_users)
          = store_users\<lparr>tbl_transactions := tbl_transactions store_users @ [t]\<rparr>
        \<and> t_userId t = ''u1'')
   \<and> (\<exists>i. snd (authenticateToken validateToken_ex (Some ''token-u1'')
               (post_investments_handler ''id-1'' ''2024-05-02T08:00:00.000Z''
                  investment_body_ex) store_users)
          = store_users\<lparr>tbl_investments := tbl_investments store_users @ [i]\<rparr>
        \<and> i_userId i = ''u1'')
   \<and> (\<exists>g. snd (authenticateToken validateToken_ex (Some ''token-u1'')
               (post_goals_handler ''id-1'' ''2024-05-02T08:00:00.000Z''
                  goal_body_ex) store_users)
          = store_users\<lparr>tbl_goals := tbl_goals store_users @ [g]\<rparr>
        \<and> g_userId g = ''u1'')"
proof -
  have v: "validateToken_ex ''token-u1'' = Some ''u1''"
    by (simp add: validateToken_ex_def)
  have r1: "authenticateToken validateToken_ex (Some ''token-u1'')
              (post_transactions_handler ''id-1'' ''2024-05-02T08:00:00.000Z''
                 transaction_body_ex) store_users =
            (Response 200
               (transaction_json
                  \<lparr>t_id = ''id-1'', t_userId = ''u1'', t_description = ''Rent'',
                   t_amount = 900, t_category = ''Housing'', t_type = ''expense'',
                   t_date = ''2024-05-01'', t_createdAt = ''2024-05-02T08:00:00.000Z''\<rparr>),
             store_users\<lparr>tbl_transactions :=
               [\<lparr>t_id = ''id-1'', t_userId = ''u1'', t_description = ''Rent'',
                 t_amount = 900, t_category = ''Housing'', t_type = ''expense'',
                 t_date = ''2024-05-01'', t_createdAt = ''2024-05-02T08:00:00.000Z''\<rparr>]\<rparr>)"
    by code_simp
  have r2: "authenticateToken validateToken_ex (Some ''token-u1'')
              (post_investments_handler ''id-1'' ''2024-05-02T08:00:00.000Z''
                 investment_body_ex) store_users =
            (Response 200
               (investment_json
                  \<lparr>i_id = ''id-1'', i_userId = ''u1'', i_symbol = ''ACME'',
                   i_name = ''Acme Corp'', i_type = ''stock'', i_shares = 10,
                   i_purchasePrice = 100, i_currentPrice = 150,
                   i_purchaseDate = ''2024-02-01'',
                   i_createdAt = ''2024-05-02T08:00:00.000Z''\<rparr>),
             store_users\<lparr>tbl_investments :=
               [\<lparr>i_id = ''id-1'', i_userId = ''u1'', i_symbol = ''ACME'',
                 i_name = ''Acme Corp'', i_type = ''stock'', i_shares = 10,
                 i_purchasePrice = 100, i_currentPrice = 150,
                 i_purchaseDate = ''2024-02-01'',
                 i_createdAt = ''2024-05-02T08:00:00.000Z''\<rparr>]\<rparr>)"
    by code_simp
  have r3: "authenticateToken validateToken_ex (Some ''token-u1'')
              (post_goals_handler ''id-1'' ''2024-05-02T08:00:00.000Z''
                 goal_body_ex) store_users =
            (Response 200
               (JObj [(''userId'', JStr ''u1''), (''title'', JStr ''Car''),
                      (''targetAmount'', JNum 1000), (''targetDate'', JStr ''2026-01-01''),
                      (''category'', JStr ''savings''), (''id'', JStr ''id-1''),
                      (''createdAt'', JStr ''2024-05-02T08:00:00.000Z'')]),
             store_users\<lparr>tbl_goals :=
               [\<lparr>g_id = ''id-1'', g_userId = ''u1'', g_title = ''Car'',
                 g_description = None, g_targetAmount = 1000, g_currentAmount = Some 0,
                 g_targetDate = ''2026-01-01'', g_category = ''savings'',
                 g_createdAt = ''2024-05-02T08:00:00.000Z''\<rparr>]\<rparr>)"
    by code_simp
  note inst = create_owner_is_caller [where validateToken = validateToken_ex
      and token = "''token-u1''" and uid = "''u1''" and s = store_users
      and uuid = "''id-1''" and now = "''2024-05-02T08:00:00.000Z''", OF v]
  from inst [where body = transaction_body_ex, THEN conjunct1, rule_format, OF r1]
  have c1: "\<exists>t. snd (authenticateToken validateToken_ex (Some ''token-u1'')
               (post_transactions_handler ''id-1'' ''2024-05-02T08:00:00.000Z''
                  transaction_body_ex) store_users)
          = store_users\<lparr>tbl_transactions := tbl_transactions store_users @ [t]\<rparr>
        \<and> t_userId t = ''u1''"
    unfolding r1 by auto
  from inst [where body = investment_body_ex, THEN conjunct2, THEN conjunct1, rule_format,
      OF r2]
  have c2: "\<exists>i. snd (authenticateToken validateToken_ex (Some ''token-u1'')
               (post_investments_handler ''id-1'' ''2024-05-02T08:00:00.000Z''
                  investment_body_ex) store_users)
          = store_users\<lparr>tbl_investments := tbl_investments store_users @ [i]\<rparr>
        \<and> i_userId i = ''u1''"
    unfolding r2 by auto
  from inst [where body = goal_body_ex, THEN conjunct2, THEN conjunct2, THEN conjunct1,
      rule_format, OF r3]
  have c3: "\<exists>g. snd (authenticateToken validateToken_ex (Some ''token-u1'')
               (post_goals_handler ''id-1'' ''2024-05-02T08:00:00.000Z''
                  goal_body_ex) store_users)
          = store_users\<lparr>tbl_goals := tbl_goals store_users @ [g]\<rparr>
        \<and> g_userId g = ''u1''"
    unfolding r3 by auto
  from c1 c2 c3 show ?thesis by blast
qed

section \<open>Registration\<close>

lemma getUserByEmail_None:
  "getUserByEmail email s = None \<longleftrightarrow> email \<notin> u_email ` set (tbl_users s)"
  by (auto simp: getUserByEmail_def find_None_iff)

lemma insertUserSchema_parse_email:
  "insertUserSchema_parse body = Some d \<Longrightarrow> get_str body ''email'' = Some (iu_email d)"
  by (auto simp: insertUserSchema_parse_def split: Option.bind_splits)

lemma register_existing:
  assumes "get_str body ''email'' = Some email" "email \<in> u_email ` set (tbl_users s)"
  shows "register hashPassword generateToken uuid now body s =
           (Response 400 (message ''User already exists''), s)
         \<or> register hashPassword generateToken uuid now body s =
           (Response 400 (message ''Invalid request data''), s)"
proof (cases "insertUserSchema_parse body")
  case None
  then show ?thesis by (simp add: register_def)
next
  case (Some d)
  from insertUserSchema_parse_email [OF Some] assms have "iu_email d = email" by simp
  with assms(2) have "getUserByEmail (iu_email d) s \<noteq> None"
    by (simp add: getUserByEmail_None)
  with Some show ?thesis by (auto simp: register_def)
qed

lemma register_fresh:
  assumes "insertUserSchema_parse body = Some d"
    and "iu_email d \<notin> u_email ` set (tbl_users s)"
  shows "register hashPassword generateToken uuid now body s =
           (Response 200
              (JObj [(''user'',
                      JObj [(''id'', JStr uuid), (''email'', JStr (iu_email d)),
                            (''firstName'', JStr (iu_firstName d)),
                            (''lastName'', JStr (iu_lastName d)), (''createdAt'', JStr now)]),
                     (''token'', JStr (generateToken uuid))]),
            s\<lparr>tbl_users := tbl_users s @
               [\<lparr>u_id = uuid, u_email = iu_email d,
                 u_password = hashPassword (iu_password d),
                 u_firstName = iu_firstName d, u_lastName = iu_lastName d,
                 u_createdAt = now\<rparr>]\<rparr>)"
proof -
  from assms(2) have "getUserByEmail (iu_email d) s = None"
    by (simp add: getUserByEmail_None)
  with assms show ?thesis
    by (simp add: register_def createUser_def Let_def userWithoutPassword_def user_obj_def
        AList.delete_eq)
qed

text \<open>
  Claim C9. A registration whose body carries the email of an existing user is answered
  with status 400 and a message only (no token), and the store is unchanged. A
  registration with a well-formed body and a fresh email is answered with 200 and
  appends exactly one user to the store, whose stored password is the hash of the
  submitted password.
\<close>

theorem register_unique_email:
  "(get_str body ''email'' = Some email \<and> email \<in> u_email ` set (tbl_users s) \<longrightarrow>
      (\<exists>m. register hashPassword generateToken uuid now body s =
             (Response 400 (message m), s)))
   \<and> (insertUserSchema_parse body = Some d \<and> iu_email d \<notin> u_email ` set (tbl_users s) \<longrightarrow>
      register hashPassword generateToken uuid now body s =
        (Response 200
           (JObj [(''user'',
                   JObj [(''id'', JStr uuid), (''email'', JStr (iu_email d)),
                         (''firstName'', JStr (iu_firstName d)),
                         (''lastName'', JStr (iu_lastName d)), (''createdAt'', JStr now)]),
                  (''token'', JStr (generateToken uuid))]),
         s\<lparr>tbl_users := tbl_users s @
            [\<lparr>u_id = uuid, u_email = iu_email d,
              u_password = hashPassword (iu_password d),
              u_firstName = iu_firstName d, u_lastName = iu_lastName d,
              u_createdAt = now\<rparr>]\<rparr>))"
  using register_existing [of body email s hashPassword generateToken uuid now]
    register_fresh [of body d s hashPassword generateToken uuid now]
  by blast

theorem register_unique_email_witness:
  "(\<exists>m. register hashPassword_ex generateToken_ex ''u3'' ''2024-05-02T08:00:00.000Z''
           duplicate_body_ex store_users = (Response 400 (message m), store_users))
   \<and> register hashPassword_ex generateToken_ex ''u3'' ''2024-05-02T08:00:00.000Z''
         register_body_ex store_users =
       (Response 200
          (JObj [(''user'',
                  JObj [(''id'', JStr ''u3''), (''email'', JStr ''carol@example.com''),
                        (''firstName'', JStr ''Carol''), (''lastName'', JStr ''Cole''),
                        (''createdAt'', JStr ''2024-05-02T08:00:00.000Z'')]),
                 (''token'', JStr ''token-u3'')]),
        store_users\<lparr>tbl_users := [alice, bob,
           \<lparr>u_id = ''u3'', u_email = ''carol@example.com'', u_password = ''#opensesame'',
             u_firstName = ''Carol'', u_lastName = ''Cole'',
             u_createdAt = ''2024-05-02T08:00:00.000Z''\<rparr>]\<rparr>)"
proof -
  have e: "get_str duplicate_body_ex ''email'' = Some ''alice@example.com''
           \<and> ''alice@example.com'' \<in> u_email ` set (tbl_users store_users)"
    by (simp add: get_str_def duplicate_body_ex_def store_users_def store0_def alice_def)
  have f: "insertUserSchema_parse register_body_ex =
             Some \<lparr>iu_email = ''carol@example.com'', iu_password = ''opensesame'',
                   iu_firstName = ''Carol'', iu_lastName = ''Cole''\<rparr>
           \<and> iu_email \<lparr>iu_email = ''carol@example.com'', iu_password = ''opensesame'',
                   iu_firstName = ''Carol'', iu_lastName = ''Cole''\<rparr>
               \<notin> u_email ` set (tbl_users store_users)"
    by (simp add: insertUserSchema_parse_def register_body_ex_def get_str_def store_users_def
        store0_def alice_def bob_def)
  from register_unique_email [where s = store_users and hashPassword = hashPassword_ex
      and generateToken = generateToken_ex and uuid = "''u3''"
      and now = "''2024-05-02T08:00:00.000Z''",
      THEN conjunct1, rule_format, OF e]
    register_unique_email [where s = store_users and hashPassword = hashPassword_ex
      and generateToken = generateToken_ex and uuid = "''u3''"
      and now = "''2024-05-02T08:00:00.000Z''",
      THEN conjunct2, rule_format, OF f]
  show ?thesis
    by (simp add: store_users_def store0_def hashPassword_ex_def generateToken_ex_def)
qed

section \<open>The password digest stays in the store\<close>

lemma userWithoutPassword_eq:
  "userWithoutPassword u =
     [(''id'', JStr (u_id u)), (''email'', JStr (u_email u)),
      (''firstName'', JStr (u_firstName u)), (''lastName'', JStr (u_lastName u)),
      (''createdAt'', JStr (u_createdAt u))]"
  by (simp add: userWithoutPassword_def user_obj_def AList.delete_eq)

lemma userWithoutPassword_no_key: "''password'' \<notin> fst ` set (userWithoutPassword u)"
  by (simp add: userWithoutPassword_eq)

lemma userWithoutPassword_redact:
  "userWithoutPassword (u\<lparr>u_password := p\<rparr>) = userWithoutPassword u"
  by (simp add: userWithoutPassword_eq)

lemma find_map_option: "find P (map f xs) = map_option f (find (P \<circ> f) xs)"
  by (induction xs) simp_all

lemma case_option_cong_map:
  "map_option g a = map_option g b \<Longrightarrow>
     (case a of None \<Rightarrow> x | Some u \<Rightarrow> h (g u)) = (case b of None \<Rightarrow> x | Some u \<Rightarrow> h (g u))"
  by (cases a; cases b) simp_all

lemma find_redacted:
  assumes "map (\<lambda>u. u\<lparr>u_password := []\<rparr>) xs = map (\<lambda>u. u\<lparr>u_password := []\<rparr>) ys"
    and "\<And>u p. P (u\<lparr>u_password := p\<rparr>) = P u"
  shows "map_option userWithoutPassword (find P xs) = map_option userWithoutPassword (find P ys)"
    and "map_option u_id (find P xs) = map_option u_id (find P ys)"
proof -
  let ?f = "\<lambda>u. u\<lparr>u_password := []\<rparr>"
  have comp: "P \<circ> ?f = P" using assms(2) by (simp add: fun_eq_iff)
  have "map_option ?f (find P xs) = find P (map ?f xs)"
    by (simp add: find_map_option comp)
  also have "\<dots> = find P (map ?f ys)" using assms(1) by simp
  also have "\<dots> = map_option ?f (find P ys)"
    by (simp add: find_map_option comp)
  finally have eq: "map_option ?f (find P xs) = map_option ?f (find P ys)" .
  have "map_option userWithoutPassword (find P xs)
        = map_option userWithoutPassword (map_option ?f (find P xs))"
    by (simp add: option.map_comp comp_def userWithoutPassword_redact)
  also have "\<dots> = map_option userWithoutPassword (map_option ?f (find P ys))"
    using eq by simp
  also have "\<dots> = map_option userWithoutPassword (find P ys)"
    by (simp add: option.map_comp comp_def userWithoutPassword_redact)
  finally show "map_option userWithoutPassword (find P xs)
        = map_option userWithoutPassword (find P ys)" .
  have "map_option u_id (find P xs) = map_option u_id (map_option ?f (find P xs))"
    by (simp add: option.map_comp comp_def)
  also have "\<dots> = map_option u_id (map_option ?f (find P ys))"
    using eq by simp
  also have "\<dots> = map_option u_id (find P ys)"
    by (simp add: option.map_comp comp_def)
  finally show "map_option u_id (find P xs) = map_option u_id (find P ys)" .
qed

lemma me_no_password:
  "me validateToken bearer s = (Response 200 (JObj ob), s') \<Longrightarrow>
     \<exists>uo. ob = [(''user'', JObj uo)] \<and> ''password'' \<notin> fst ` set uo"
  by (auto simp: me_def authenticateToken_def me_handler_def message_def
      userWithoutPassword_no_key split: option.splits)

lemma login_no_password:
  "login isEmail verifyPassword generateToken body s = (Response 200 (JObj ob), s') \<Longrightarrow>
     \<exists>uo tok. ob = [(''user'', JObj uo), (''token'', JStr tok)]
        \<and> ''password'' \<notin> fst ` set uo"
  by (auto simp: login_def message_def Let_def userWithoutPassword_no_key
      split: option.splits if_splits)

lemma register_no_password:
  "register hashPassword generateToken uuid now body s = (Response 200 (JObj ob), s') \<Longrightarrow>
     \<exists>uo tok. ob = [(''user'', JObj uo), (''token'', JStr tok)]
        \<and> ''password'' \<notin> fst ` set uo"
  by (auto simp: register_def message_def Let_def userWithoutPassword_no_key
      split: option.splits sum.splits)

lemma me_independent:
  assumes "map (\<lambda>u. u\<lparr>u_password := []\<rparr>) (tbl_users s1)
           = map (\<lambda>u. u\<lparr>u_password := []\<rparr>) (tbl_users s2)"
  shows "fst (me validateToken bearer s1) = fst (me validateToken bearer s2)"
proof -
  have eq: "map_option userWithoutPassword (getUser uid s1)
        = map_option userWithoutPassword (getUser uid s2)" for uid
    unfolding getUser_def by (rule find_redacted(1) [OF assms]) simp
  have "fst (me_handler uid s) =
          (case getUser uid s of
             None \<Rightarrow> Response 404 (message ''User not found'')
           | Some u \<Rightarrow> Response 200 (JObj [(''user'', JObj (userWithoutPassword u))]))"
    for uid s
    by (simp add: me_handler_def split: option.splits)
  then have "fst (me_handler uid s1) = fst (me_handler uid s2)" for uid
    using case_option_cong_map [OF eq [of uid],
        of "Response 404 (message ''User not found'')"
           "\<lambda>uo. Response 200 (JObj [(''user'', JObj uo)])"]
    by simp
  then show ?thesis
    by (simp add: me_def authenticateToken_def split: option.splits)
qed

lemma register_independent:
  assumes "map (\<lambda>u. u\<lparr>u_password := []\<rparr>) (tbl_users s1)
           = map (\<lambda>u. u\<lparr>u_password := []\<rparr>) (tbl_users s2)"
  shows "fst (register hashPassword1 generateToken uuid now body s1)
         = fst (register hashPassword2 generateToken uuid now body s2)"
proof (cases "insertUserSchema_parse body")
  case None
  then show ?thesis by (simp add: register_def)
next
  case (Some d)
  have "map u_email (map (\<lambda>u. u\<lparr>u_password := []\<rparr>) (tbl_users s1))
        = map u_email (map (\<lambda>u. u\<lparr>u_password := []\<rparr>) (tbl_users s2))"
    using assms by simp
  then have emails: "map u_email (tbl_users s1) = map u_email (tbl_users s2)"
    by (simp add: comp_def)
  then have mem: "iu_email d \<in> u_email ` set (tbl_users s1)
      \<longleftrightarrow> iu_email d \<in> u_email ` set (tbl_users s2)"
    by (metis set_map)
  show ?thesis
  proof (cases "iu_email d \<in> u_email ` set (tbl_users s1)")
    case True
    with mem have "getUserByEmail (iu_email d) s1 \<noteq> None"
      "getUserByEmail (iu_email d) s2 \<noteq> None"
      by (simp_all add: getUserByEmail_None)
    with Some show ?thesis by (auto simp: register_def)
  next
    case False
    with mem have "getUserByEmail (iu_email d) s1 = None"
      "getUserByEmail (iu_email d) s2 = None"
      by (simp_all add: getUserByEmail_None)
    with Some False mem show ?thesis
      by (simp add: register_def createUser_def Let_def userWithoutPassword_eq)
  qed
qed

lemma login_independent:
  assumes "map (\<lambda>u. u\<lparr>u_password := []\<rparr>) (tbl_users s1)
           = map (\<lambda>u. u\<lparr>u_password := []\<rparr>) (tbl_users s2)"
    and "fst (login isEmail verifyPassword1 generateToken body s1) = Response 200 b1"
    and "fst (login isEmail verifyPassword2 generateToken body s2) = Response 200 b2"
  shows "b1 = b2"
proof (cases "loginSchema_parse isEmail body")
  case None
  with assms(2) show ?thesis by (simp add: login_def)
next
  case (Some ep)
  obtain email password where ep: "ep = (email, password)" by (cases ep)
  have eq: "map_option userWithoutPassword (getUserByEmail email s1)
        = map_option userWithoutPassword (getUserByEmail email s2)"
    and eqid: "map_option u_id (getUserByEmail email s1)
        = map_option u_id (getUserByEmail email s2)"
    unfolding getUserByEmail_def
    by (rule find_redacted(1) [OF assms(1)], simp, rule find_redacted(2) [OF assms(1)], simp)
  from assms(2) Some ep obtain u1 where u1: "getUserByEmail email s1 = Some u1"
    and b1: "b1 = JObj [(''user'', JObj (userWithoutPassword u1)),
                        (''token'', JStr (generateToken (u_id u1)))]"
    by (auto simp: login_def Let_def split: option.splits if_splits)
  from assms(3) Some ep obtain u2 where u2: "getUserByEmail email s2 = Some u2"
    and b2: "b2 = JObj [(''user'', JObj (userWithoutPassword u2)),
                        (''token'', JStr (generateToken (u_id u2)))]"
    by (auto simp: login_def Let_def split: option.splits if_splits)
  from eq eqid u1 u2 b1 b2 show ?thesis by simp
qed

text \<open>
  Claim C10. A success response of register, login or the current-user endpoint carries
  the user object without its \<open>password\<close> key, and the stored digests do not flow
  into these responses: two stores that differ only in the stored password digests give
  the same register response (whatever the hash function), the same current-user
  response, and the same login success body.
\<close>

theorem password_never_returned:
  "(\<forall>ob s'. register hashPassword generateToken uuid now body s =
               (Response 200 (JObj ob), s') \<longrightarrow>
      (\<exists>uo tok. ob = [(''user'', JObj uo), (''token'', JStr tok)]
         \<and> ''password'' \<notin> fst ` set uo))
   \<and> (\<forall>ob s'. login isEmail verifyPassword generateToken body s =
               (Response 200 (JObj ob), s') \<longrightarrow>
      (\<exists>uo tok. ob = [(''user'', JObj uo), (''token'', JStr tok)]
         \<and> ''password'' \<notin> fst ` set uo))
   \<and> (\<forall>ob s'. me validateToken bearer s = (Response 200 (JObj ob), s') \<longrightarrow>
      (\<exists>uo. ob = [(''user'', JObj uo)] \<and> ''password'' \<notin> fst ` set uo))
   \<and> (map (\<lambda>u. u\<lparr>u_password := []\<rparr>) (tbl_users s)
        = map (\<lambda>u. u\<lparr>u_password := []\<rparr>) (tbl_users t) \<longrightarrow>
        fst (register hashPassword generateToken uuid now body s)
          = fst (register hashPassword' generateToken uuid now body t)
        \<and> fst (me validateToken bearer s) = fst (me validateToken bearer t)
        \<and> (\<forall>b b'. fst (login isEmail verifyPassword generateToken body s) = Response 200 b
              \<and> fst (login isEmail verifyPassword' generateToken body t) = Response 200 b'
              \<longrightarrow> b = b'))"
  using register_no_password [of hashPassword generateToken uuid now body s]
    login_no_password [of isEmail verifyPassword generateToken body s]
    me_no_password [of validateToken bearer s]
    register_independent [of s t hashPassword generateToken uuid now body hashPassword']
    me_independent [of s t validateToken bearer]
    login_independent [of s t isEmail verifyPassword generateToken body _ verifyPassword']
  by blast

theorem password_never_returned_witness:
  "(\<exists>uo tok. fst (register hashPassword_ex generateToken_ex ''u3''
                    ''2024-05-02T08:00:00.000Z'' register_body_ex store_users)
        = Response 200 (JObj [(''user'', JObj uo), (''token'', JStr tok)])
        \<and> ''password'' \<notin> fst ` set uo)
   \<and> (\<exists>uo tok. fst (login isEmail_ex verifyPassword_ex generateToken_ex login_body_ex
                    store_users)
        = Response 200 (JObj [(''user'', JObj uo), (''token'', JStr tok)])
        \<and> ''password'' \<notin> fst ` set uo)
   \<and> (\<exists>uo. fst (me validateToken_ex (Some ''token-u1'') store_users)
        = Response 200 (JObj [(''user'', JObj uo)]) \<and> ''password'' \<notin> fst ` set uo)
   \<and> fst (register hashPassword_ex generateToken_ex ''u3'' ''2024-05-02T08:00:00.000Z''
           register_body_ex store_users)
       = fst (register (\<lambda>password. ''other'') generateToken_ex ''u3''
           ''2024-05-02T08:00:00.000Z'' register_body_ex store_users')
   \<and> fst (me validateToken_ex (Some ''token-u1'') store_users)
       = fst (me validateToken_ex (Some ''token-u1'') store_users')
   \<and> fst (login isEmail_ex verifyPassword_ex generateToken_ex login_body_ex store_users)
       = fst (login isEmail_ex (\<lambda>password digest. True) generateToken_ex login_body_ex
           store_users')"
proof -
  have r1: "register hashPassword_ex generateToken_ex ''u3'' ''2024-05-02T08:00:00.000Z''
              register_body_ex store_users =
       (Response 200
          (JObj [(''user'',
                  JObj [(''id'', JStr ''u3''), (''email'', JStr ''carol@example.com''),
                        (''firstName'', JStr ''Carol''), (''lastName'', JStr ''Cole''),
                        (''createdAt'', JStr ''2024-05-02T08:00:00.000Z'')]),
                 (''token'', JStr ''token-u3'')]),
        store_users\<lparr>tbl_users := [alice, bob,
           \<lparr>u_id = ''u3'', u_email = ''carol@example.com'', u_password = ''#opensesame'',
             u_firstName = ''Carol'', u_lastName = ''Cole'',
             u_createdAt = ''2024-05-02T08:00:00.000Z''\<rparr>]\<rparr>)"
    by code_simp
  have r2: "login isEmail_ex verifyPassword_ex generateToken_ex login_body_ex store_users =
       (Response 200
          (JObj [(''user'',
                  JObj [(''id'', JStr ''u1''), (''email'', JStr ''alice@example.com''),
                        (''firstName'', JStr ''Alice''), (''lastName'', JStr ''Ames''),
                        (''createdAt'', JStr ''2024-01-01T00:00:00.000Z'')]),
                 (''token'', JStr ''token-u1'')]), store_users)"
    by code_simp
  have r2': "login isEmail_ex (\<lambda>password digest. True) generateToken_ex login_body_ex
               store_users' =
       (Response 200
          (JObj [(''user'',
                  JObj [(''id'', JStr ''u1''), (''email'', JStr ''alice@example.com''),
                        (''firstName'', JStr ''Alice''), (''lastName'', JStr ''Ames''),
                        (''createdAt'', JStr ''2024-01-01T00:00:00.000Z'')]),
                 (''token'', JStr ''token-u1'')]), store_users')"
    by code_simp
  have r3: "me validateToken_ex (Some ''token-u1'') store_users =
       (Response 200
          (JObj [(''user'',
                  JObj [(''id'', JStr ''u1''), (''email'', JStr ''alice@example.com''),
                        (''firstName'', JStr ''Alice''), (''lastName'', JStr ''Ames''),
                        (''createdAt'', JStr ''2024-01-01T00:00:00.000Z'')])]), store_users)"
    by code_simp
  have low: "map (\<lambda>u. u\<lparr>u_password := []\<rparr>) (tbl_users store_users)
             = map (\<lambda>u. u\<lparr>u_password := []\<rparr>) (tbl_users store_users')"
    by (simp add: store_users_def store_users'_def store0_def)
  note inst = password_never_returned [where s = store_users and t = store_users'
      and hashPassword = hashPassword_ex and hashPassword' = "\<lambda>password. ''other''"
      and generateToken = generateToken_ex and uuid = "''u3''"
      and now = "''2024-05-02T08:00:00.000Z''" and validateToken = validateToken_ex
      and bearer = "Some ''token-u1''" and isEmail = isEmail_ex
      and verifyPassword = verifyPassword_ex
      and verifyPassword' = "\<lambda>password digest. True"]
  from inst [where body = register_body_ex, THEN conjunct1, rule_format, OF r1]
  have c1: "\<exists>uo tok. fst (register hashPassword_ex generateToken_ex ''u3''
                    ''2024-05-02T08:00:00.000Z'' register_body_ex store_users)
        = Response 200 (JObj [(''user'', JObj uo), (''token'', JStr tok)])
        \<and> ''password'' \<notin> fst ` set uo"
    unfolding r1 by simp
  from inst [where body = login_body_ex, THEN conjunct2, THEN conjunct1, rule_format, OF r2]
  have c2: "\<exists>uo tok. fst (login isEmail_ex verifyPassword_ex generateToken_ex login_body_ex
                    store_users)
        = Response 200 (JObj [(''user'', JObj uo), (''token'', JStr tok)])
        \<and> ''password'' \<notin> fst ` set uo"
    unfolding r2 by simp
  from inst [where body = login_body_ex, THEN conjunct2, THEN conjunct2, THEN conjunct1,
      rule_format, OF r3]
  have c3: "\<exists>uo. fst (me validateToken_ex (Some ''token-u1'') store_users)
        = Response 200 (JObj [(''user'', JObj uo)]) \<and> ''password'' \<notin> fst ` set uo"
    unfolding r3 by simp
  from inst [where body = register_body_ex, THEN conjunct2, THEN conjunct2, THEN conjunct2,
      rule_format, OF low]
  have c4: "fst (register hashPassword_ex generateToken_ex ''u3'' ''2024-05-02T08:00:00.000Z''
           register_body_ex store_users)
       = fst (register (\<lambda>password. ''other'') generateToken_ex ''u3''
           ''2024-05-02T08:00:00.000Z'' register_body_ex store_users')"
    and c5: "fst (me validateToken_ex (Some ''token-u1'') store_users)
       = fst (me validateToken_ex (Some ''token-u1'') store_users')"
    by simp_all
  from inst [where body = login_body_ex, THEN conjunct2, THEN conjunct2, THEN conjunct2,
      rule_format, OF low, THEN conjunct2, THEN conjunct2, rule_format, of _ _]
    r2 r2'
  have c6: "fst (login isEmail_ex verifyPassword_ex generateToken_ex login_body_ex store_users)
       = fst (login isEmail_ex (\<lambda>password digest. True) generateToken_ex login_body_ex
           store_users')"
    by simp
  from c1 c2 c3 c4 c5 c6 show ?thesis by blast
qed

section \<open>Read-by-owner\<close>





lemma sql_limit_take:
  "sql_limit limit rows =
     take (case limit of
             IntVal n \<Rightarrow> if 0 \<le> n then nat n else length rows
           | IntNaN \<Rightarrow> length rows) rows"
  by (simp add: sql_limit_def split: jsint.splits)






section \<open>Ownership isolation\<close>

text \<open>
  What holds of a single operation: a read returns only rows whose owner field is the
  caller; an update or a delete on an identifier that does not exist or whose row has
  another owner finds nothing, answers not-found and leaves the store as it is; and an
  update or a delete leaves every row of another owner in place.
\<close>

lemma find_filter_None: "filter P xs = [] \<Longrightarrow> find P xs = None"
  by (simp add: find_None_iff filter_empty_conv)

lemma map_if_filter_empty:
  "filter P xs = [] \<Longrightarrow> map (\<lambda>x. if P x then f x else x) xs = xs"
  by (induction xs) (auto split: if_splits)

lemma filter_not_id: "filter P xs = [] \<Longrightarrow> filter (\<lambda>x. \<not> P x) xs = xs"
  by (induction xs) (auto split: if_splits)

lemma getTransaction_owner:
  "getTransaction ident userId s = Some t \<Longrightarrow>
     t_id t = ident \<and> t_userId t = userId \<and> t \<in> set (tbl_transactions s)"
  by (auto simp: getTransaction_def find_Some_iff)

lemma getUserTransactions_owner:
  "t \<in> set (getUserTransactions userId limit s) \<Longrightarrow>
     t_userId t = userId \<and> t \<in> set (tbl_transactions s)"
  by (auto simp: getUserTransactions_def orderByDesc_def sql_limit_take dest!: in_set_takeD)

lemma transaction_not_found:
  assumes "filter (\<lambda>t. t_id t = ident \<and> t_userId t = userId) (tbl_transactions s) = []"
  shows "getTransaction ident userId s = None"
    and "updateTransaction ident userId updates s = (None, s)"
    and "deleteTransaction ident userId s = (False, s)"
    and "fst (put_transactions_handler ident body userId s) =
           Response 404 (message ''Transaction not found'')
         \<or> fst (put_transactions_handler ident body userId s) =
           Response 400 (message ''Invalid update data'')"
    and "snd (put_transactions_handler ident body userId s) = s"
    and "delete_transactions_handler ident userId s =
           (Response 404 (message ''Transaction not found''), s)"
proof -
  show g: "getTransaction ident userId s = None"
    using assms by (simp add: getTransaction_def find_filter_None)
  show u: "updateTransaction ident userId updates s = (None, s)" for updates
    using assms g by (simp add: updateTransaction_def map_if_filter_empty)
  show d: "deleteTransaction ident userId s = (False, s)"
    unfolding deleteTransaction_def Let_def filter_not_id [OF assms] assms by simp
  show "fst (put_transactions_handler ident body userId s) =
           Response 404 (message ''Transaction not found'')
         \<or> fst (put_transactions_handler ident body userId s) =
           Response 400 (message ''Invalid update data'')"
    by (simp add: put_transactions_handler_def u split: option.splits)
  show "snd (put_transactions_handler ident body userId s) = s"
    by (simp add: put_transactions_handler_def u split: option.splits)
  show "delete_transactions_handler ident userId s =
           (Response 404 (message ''Transaction not found''), s)"
    by (simp add: delete_transactions_handler_def d)
qed

lemma transactions_of_others_untouched:
  assumes "t \<in> set (tbl_transactions s)" "t_userId t \<noteq> userId"
  shows "t \<in> set (tbl_transactions (snd (updateTransaction ident userId updates s)))"
    and "t \<in> set (tbl_transactions (snd (deleteTransaction ident userId s)))"
  using assms by (auto simp: updateTransaction_def deleteTransaction_def Let_def image_iff
      intro!: bexI [of _ t])

lemma investment_not_found:
  assumes "filter (\<lambda>i. i_id i = ident \<and> i_userId i = userId) (tbl_investments s) = []"
  shows "getInvestment ident userId s = None"
    and "updateInvestment ident userId updates s = (None, s)"
    and "deleteInvestment ident userId s = (False, s)"
proof -
  show g: "getInvestment ident userId s = None"
    using assms by (simp add: getInvestment_def find_filter_None)
  show "updateInvestment ident userId updates s = (None, s)"
    using assms g by (simp add: updateInvestment_def map_if_filter_empty)
  show "deleteInvestment ident userId s = (False, s)"
    unfolding deleteInvestment_def Let_def filter_not_id [OF assms] assms by simp
qed

lemma goal_not_found:
  assumes "filter (\<lambda>g. g_id g = ident \<and> g_userId g = userId) (tbl_goals s) = []"
  shows "getGoal ident userId s = None"
    and "updateGoal ident userId updates s = (None, s)"
    and "deleteGoal ident userId s = (False, s)"
proof -
  show g: "getGoal ident userId s = None"
    using assms by (simp add: getGoal_def find_filter_None)
  show "updateGoal ident userId updates s = (None, s)"
    using assms g by (simp add: updateGoal_def map_if_filter_empty)
  show "deleteGoal ident userId s = (False, s)"
    unfolding deleteGoal_def Let_def filter_not_id [OF assms] assms by simp
qed

text \<open>
  Claim C1 (ownership isolation: a record created by one user is never returned to,
  updated by or deleted by another user) against the code. The update schema is the
  insert schema made partial, so it accepts \<open>userId\<close>, and the \<open>PUT\<close> handler
  passes it to \<open>SET\<close>; the \<open>POST\<close> handler overwrites the field with the
  caller. User u2 creates a transaction and updates it with the body
  \<open>{"userId": "u1"}\<close>: the row changes owner while the response is 404, since the
  re-read looks the row up under the caller. After that the record created by u2 is
  returned by u1's read and deleted by u1's delete.
\<close>

theorem update_reassigns_owner:
  "snd (authenticateToken validateToken_ex (Some ''token-u2'')
          (post_transactions_handler ''t-1'' ''2024-05-02T08:00:00.000Z''
             transaction_body_ex) store_users) = store_created
   \<and> authenticateToken validateToken_ex (Some ''token-u2'')
         (put_transactions_handler ''t-1'' reassign_body_ex) store_created =
       (Response 404 (message ''Transaction not found''), store_reassigned)
   \<and> store_reassigned \<noteq> store_created
   \<and> getUserTransactions ''u1'' None store_reassigned =
       [\<lparr>t_id = ''t-1'', t_userId = ''u1'', t_description = ''Rent'', t_amount = 900,
         t_category = ''Housing'', t_type = ''expense'', t_date = ''2024-05-01'',
         t_createdAt = ''2024-05-02T08:00:00.000Z''\<rparr>]
   \<and> getUserTransactions ''u2'' None store_reassigned = []
   \<and> authenticateToken validateToken_ex (Some ''token-u1'')
         (delete_transactions_handler ''t-1'') store_reassigned =
       (Response 200 (JObj [(''success'', JBool True)]), store_users)"
  by code_simp

end
